theory Spec2Isabelle
  imports Complex_Main "HOL-Library.Word"
begin

section \<open>Project Nocturna: the ETL pipeline of etl_main.py and the ingest scaffold\<close>

text \<open>
  A shallow embedding of \<^verbatim>\<open>src/etl_main.py\<close> (download, change analysis, export) and of
  \<^verbatim>\<open>src/scripts/ingest_viirs/ingest.py\<close> (the provenance sidecar).

  Conventions of the embedding.
  \<^item> The external libraries (earthaccess, GDAL, psycopg2, the file system) are collaborators:
    each is a record of the answers it gives, and an answer may be an exception.
  \<^item> \<^verbatim>\<open>print\<close> is a list of log events, one constructor per message of the source; the
    decorative characters of the messages are left out.
  \<^item> A raster band is a list of rows of unsigned 16-bit cells, the raw radiance encoding the
    specification names. \<^verbatim>\<open>astype(float)\<close> maps a cell to the real number of the same value;
    every 16-bit value and every difference of two of them is a binary64 number, so the
    subtraction and the comparison with 5 are exact.
  \<^item> The Python floats of the geo transform are real numbers: the embedding keeps the
    formulas of the source, not the rounding of binary64.
\<close>

subsection \<open>Exceptions, outcomes, log events\<close>

text \<open>
  Every member of \<open>exn\<close> is a subclass of Python's \<^verbatim>\<open>Exception\<close>. \<^verbatim>\<open>SystemExit\<close> is not:
  \<^verbatim>\<open>except Exception\<close> lets it through, so it is an outcome of its own.
\<close>

datatype exn = IndexError | ValueError | AttributeError | LibraryError string

datatype 'a outcome = Returned 'a | Raised exn | SystemExit nat

datatype log =
    StartingPipeline
  | CycleComplete
  | Downloading string
  | Querying string
  | NoData string
  | CorruptFile string
  | DownloadError exn
  | AuthenticationFailed
  | AnalyzingChange
  | FoundHotspots nat
  | GDALError exn
  | Uploading string
  | SkippingUpload
  | UploadSuccess nat string
  | UploadFailed exn
  | SkippingCity string
  | CriticalError string exn

subsection \<open>Strings\<close>

fun startswith :: "string \<Rightarrow> string \<Rightarrow> bool" where
  "startswith s [] = True"
| "startswith [] (p # ps) = False"
| "startswith (c # cs) (p # ps) = (c = p \<and> startswith cs ps)"

text \<open>Python's \<^verbatim>\<open>needle in haystack\<close> on strings.\<close>

fun str_in :: "string \<Rightarrow> string \<Rightarrow> bool" where
  "str_in needle [] = (needle = [])"
| "str_in needle (c # cs) = (startswith (c # cs) needle \<or> str_in needle cs)"

subsection \<open>Arrays\<close>

type_synonym u16 = "16 word"

text \<open>
  A two-dimensional numpy array is the list of its rows; \<open>ndarray2d\<close> says that all the
  rows have the same length, as numpy's have.
\<close>

definition ndarray2d :: "'a list list \<Rightarrow> bool" where
  "ndarray2d a = list_all (\<lambda>r. length r = length (hd a)) a"

definition shape :: "'a list list \<Rightarrow> nat \<times> nat" where
  "shape a = (length a, length (hd a))"

definition astype_float :: "u16 list list \<Rightarrow> real list list" where
  "astype_float a = map (map (\<lambda>w. real (unat w))) a"

text \<open>
  Elementwise subtraction with numpy's broadcasting rule, one axis at a time: equal
  lengths subtract pairwise, an axis of length 1 is stretched, anything else is a
  \<^verbatim>\<open>ValueError\<close>.
\<close>

fun sequence :: "(exn + 'a) list \<Rightarrow> exn + 'a list" where
  "sequence [] = Inr []"
| "sequence (x # xs) =
     (case x of Inl e \<Rightarrow> Inl e
      | Inr v \<Rightarrow> (case sequence xs of Inl e \<Rightarrow> Inl e | Inr vs \<Rightarrow> Inr (v # vs)))"

definition sub_row :: "real list \<Rightarrow> real list \<Rightarrow> exn + real list" where
  "sub_row r s =
     (if length r = length s then Inr (map2 (-) r s)
      else if length r = 1 then Inr (map (\<lambda>v. hd r - v) s)
      else if length s = 1 then Inr (map (\<lambda>v. v - hd s) r)
      else Inl ValueError)"

definition ndarray_sub :: "real list list \<Rightarrow> real list list \<Rightarrow> exn + real list list" where
  "ndarray_sub a b =
     (if length a = length b then sequence (map2 sub_row a b)
      else if length a = 1 then sequence (map (sub_row (hd a)) b)
      else if length b = 1 then sequence (map (\<lambda>r. sub_row r (hd b)) a)
      else Inl ValueError)"

text \<open>
  \<^verbatim>\<open>np.where(cond)\<close> on a two-dimensional boolean array: the positions of the true cells
  in row-major order, as the pair (row indices, column indices).
\<close>

definition true_positions :: "bool list list \<Rightarrow> (nat \<times> nat) list" where
  "true_positions m = [(r, c). r \<leftarrow> [0..<length m], c \<leftarrow> [0..<length (m ! r)], m ! r ! c]"

definition np_where :: "bool list list \<Rightarrow> nat list \<times> nat list" where
  "np_where m = (map fst (true_positions m), map snd (true_positions m))"

subsection \<open>The raster decoding collaborator (GDAL)\<close>

type_synonym geotransform = "real \<times> real \<times> real \<times> real \<times> real \<times> real"

text \<open>
  What \<^verbatim>\<open>gdal.Open(name)\<close> answers: nothing (GDAL returns \<^verbatim>\<open>None\<close> for a name it
  cannot open), or a handle with its sub-datasets (name, description), its band as an
  array (\<^verbatim>\<open>ReadAsArray\<close> may answer \<^verbatim>\<open>None\<close>) and its geo transform.
\<close>

record dataset =
  GetSubDatasets :: "(string \<times> string) list"
  ReadAsArray :: "u16 list list option"
  GetGeoTransform :: geotransform

type_synonym gdal = "string \<Rightarrow> dataset option"

subsection \<open>analyze\_change (etl\_main.py, lines 76 to 106)\<close>

definition layer_name :: string where
  "layer_name = ''Gap_Filled_DNB_BRDF-Corrected_NTL''"

text \<open>
  Lines 84 to 86 and 89 to 91: open the file, take the first sub-dataset whose name
  contains the layer name, open it. A method call on \<^verbatim>\<open>None\<close> is an
  \<^verbatim>\<open>AttributeError\<close>, \<^verbatim>\<open>[...][0]\<close> on an empty list an \<^verbatim>\<open>IndexError\<close>.
\<close>

definition open_layer :: "gdal \<Rightarrow> string \<Rightarrow> exn + (string \<times> u16 list list option)" where
  "open_layer gdal_Open file =
     (case gdal_Open file of
        None \<Rightarrow> Inl AttributeError
      | Some ds \<Rightarrow>
          (case [fst x. x \<leftarrow> GetSubDatasets ds, str_in layer_name (fst x)] of
             [] \<Rightarrow> Inl IndexError
           | sub # _ \<Rightarrow>
               (case gdal_Open sub of
                  None \<Rightarrow> Inl AttributeError
                | Some band \<Rightarrow> Inr (sub, ReadAsArray band))))"

type_synonym analysis = "(nat list \<times> nat list) \<times> geotransform \<times> real list list"

text \<open>The body of the \<^verbatim>\<open>try\<close> block, lines 83 to 102, with the events it prints.\<close>

definition analyze_change_try :: "gdal \<Rightarrow> string list \<Rightarrow> exn + (analysis \<times> log list)" where
  "analyze_change_try gdal_Open files =
     (case open_layer gdal_Open (files ! 0) of
        Inl e \<Rightarrow> Inl e
      | Inr (sub_old, data_old) \<Rightarrow>
     (case open_layer gdal_Open (files ! 1) of
        Inl e \<Rightarrow> Inl e
      | Inr (sub_new, data_new) \<Rightarrow>
     (case data_new of
        None \<Rightarrow> Inl AttributeError
      | Some data_new \<Rightarrow>
     (case data_old of
        None \<Rightarrow> Inl AttributeError
      | Some data_old \<Rightarrow>
     (case ndarray_sub (astype_float data_new) (astype_float data_old) of
        Inl e \<Rightarrow> Inl e
      | Inr diff \<Rightarrow>
          (let hotspot_indices = np_where (map (map (\<lambda>v. v > 5)) diff) in
           case gdal_Open sub_new of
             None \<Rightarrow> Inl AttributeError
           | Some band \<Rightarrow>
               Inr ((hotspot_indices, GetGeoTransform band, diff),
                    [FoundHotspots (length (fst hotspot_indices))])))))))"

text \<open>
  The function itself: fewer than two files is the sentinel \<^verbatim>\<open>(None, None, None)\<close>, here
  \<open>None\<close>; every exception of the body is caught, printed and answered by the sentinel.
  The result is the outcome of the call and the events printed.
\<close>

definition analyze_change :: "gdal \<Rightarrow> string list \<Rightarrow> analysis option outcome \<times> log list" where
  "analyze_change gdal_Open files =
     (if length files < 2 then (Returned None, [AnalyzingChange])
      else
        (case analyze_change_try gdal_Open files of
           Inr (res, out) \<Rightarrow> (Returned (Some res), AnalyzingChange # out)
         | Inl e \<Rightarrow> (Returned None, [AnalyzingChange, GDALError e])))"

text \<open>
  What line 94 computes when the two bands have one shape, so that nothing is stretched:
  the cell by cell difference of the promoted arrays.
\<close>

definition diff_of :: "u16 list list \<Rightarrow> u16 list list \<Rightarrow> real list list" where
  "diff_of new old = map2 (map2 (-)) (astype_float new) (astype_float old)"

subsection \<open>The spatial database collaborator (psycopg2)\<close>

text \<open>Python's \<^verbatim>\<open>str\<close> on a non-negative and on any integer.\<close>

definition digit_char :: "nat \<Rightarrow> char" where
  "digit_char d = char_of (48 + d)"

fun str_nat :: "nat \<Rightarrow> string" where
  "str_nat n = (if n < 10 then [digit_char n] else str_nat (n div 10) @ [digit_char (n mod 10)])"

declare str_nat.simps [simp del]

definition str_int :: "int \<Rightarrow> string" where
  "str_int i = (if i < 0 then CHR ''-'' # str_nat (nat (- i)) else str_nat (nat i))"

text \<open>
  To say what \<open>str_nat\<close> prints: reading a string of decimal digits back as a number
  (Python's \<^verbatim>\<open>int\<close> on such a string), and the canonical form of a decimal numeral,
  digits only and no leading zero.
\<close>

definition digit_value :: "char \<Rightarrow> nat" where
  "digit_value ch = of_char ch - 48"

definition nat_of_str :: "string \<Rightarrow> nat" where
  "nat_of_str s = foldl (\<lambda>acc ch. 10 * acc + digit_value ch) 0 s"

definition is_decimal :: "string \<Rightarrow> bool" where
  "is_decimal s =
     (s \<noteq> [] \<and> list_all (\<lambda>ch. ch \<in> set ''0123456789'') s \<and> (length s = 1 \<or> hd s \<noteq> CHR ''0''))"

text \<open>
  The geometry of a row is \<^verbatim>\<open>ST_GeomFromText(poly, 4326)\<close>. The text \<^verbatim>\<open>POLYGON((x y, ...))\<close>
  is kept as the list of its points; how Python prints a float is not modelled.
\<close>

datatype wkt = POLYGON "(real \<times> real) list"

datatype geometry = ST_GeomFromText wkt nat

text \<open>One row of the table \<^verbatim>\<open>analysis_grid\<close>, with the columns of the insert statement.\<close>

record grid_row =
  cell_id :: string
  mean_radiance_2024 :: real
  trend_slope :: real
  risk_level :: string
  geom :: geometry

text \<open>
  The driver: \<^verbatim>\<open>connect\<close>, \<^verbatim>\<open>execute\<close> and \<^verbatim>\<open>commit\<close> may raise; \<^verbatim>\<open>cursor\<close> on a fresh
  connection and \<^verbatim>\<open>close\<close> do not.
\<close>

record psycopg2 =
  connect :: "string \<Rightarrow> exn option"
  execute :: "grid_row \<Rightarrow> exn option"
  commit :: "exn option"

datatype db_call = Connect string | Cursor | Execute grid_row | Commit | Close

text \<open>
  The database: the committed rows of \<^verbatim>\<open>analysis_grid\<close>, and every call made to the
  driver, in order, whether it returned or raised. psycopg2 opens a transaction at the
  first statement of a connection: the rows inserted are pending in the connection and
  reach the table at \<^verbatim>\<open>commit\<close> only. A connection that goes away without \<^verbatim>\<open>commit\<close>
  (the local variable \<^verbatim>\<open>conn\<close> dies when the function returns) takes its pending rows
  with it.
\<close>

record database =
  analysis_grid :: "grid_row list"
  calls :: "db_call list"

definition called :: "db_call \<Rightarrow> database \<Rightarrow> database" where
  "called c db = db\<lparr>calls := calls db @ [c]\<rparr>"

subsection \<open>export\_to\_cloud (etl\_main.py, lines 111 to 153)\<close>

definition limit :: nat where
  "limit = 500"

text \<open>
  Lines 132 to 144: the row for the hotspot at pixel \<open>(y, x)\<close>, the \<open>count\<close>-th of the
  city.
\<close>

definition hotspot_row :: "string \<Rightarrow> geotransform \<Rightarrow> real list list \<Rightarrow> nat \<Rightarrow> nat \<Rightarrow> nat \<Rightarrow> grid_row" where
  "hotspot_row city_name gt diff_data count y x =
     (let val = diff_data ! y ! x;
          (gt0, gt1, gt2, gt3, gt4, gt5) = gt;
          lon = gt0 + real x * gt1 + real y * gt2;
          lat = gt3 + real x * gt4 + real y * gt5;
          poly = POLYGON [(lon, lat), (lon + 0.01, lat), (lon + 0.01, lat - 0.01),
                          (lon, lat - 0.01), (lon, lat)]
      in \<lparr>cell_id = city_name @ ''_'' @ str_nat count,
          mean_radiance_2024 = val, trend_slope = val,
          risk_level = ''Critical'', geom = ST_GeomFromText poly 4326\<rparr>)"

text \<open>
  Lines 131 to 146, one pass of the loop at index \<open>i\<close>. The state is the counter, the
  rows pending in the connection and the database; the answer is the exception raised,
  if any, and the new state. Indexing a numpy array out of range is an \<^verbatim>\<open>IndexError\<close>.
\<close>

definition insert_hotspot ::
  "psycopg2 \<Rightarrow> string \<Rightarrow> nat list \<times> nat list \<Rightarrow> geotransform \<Rightarrow> real list list \<Rightarrow>
   nat \<Rightarrow> nat \<times> grid_row list \<times> database \<Rightarrow> exn option \<times> nat \<times> grid_row list \<times> database" where
  "insert_hotspot pg city_name indices gt diff_data i st =
     (case st of (count, pending, db) \<Rightarrow>
      if \<not> i < length (snd indices) then (Some IndexError, count, pending, db)
      else
        (let y = fst indices ! i; x = snd indices ! i in
         if \<not> (y < length diff_data \<and> x < length (diff_data ! y)) then
           (Some IndexError, count, pending, db)
         else
           (let row = hotspot_row city_name gt diff_data count y x;
                db = called (Execute row) db
            in case execute pg row of
                 Some e \<Rightarrow> (Some e, count, pending, db)
               | None \<Rightarrow> (None, count + 1, pending @ [row], db))))"

text \<open>Lines 128 to 146: the loop over \<^verbatim>\<open>range(len(indices[0]))\<close>, left at the cap.\<close>

fun insert_loop ::
  "psycopg2 \<Rightarrow> string \<Rightarrow> nat list \<times> nat list \<Rightarrow> geotransform \<Rightarrow> real list list \<Rightarrow>
   nat list \<Rightarrow> nat \<times> grid_row list \<times> database \<Rightarrow> exn option \<times> nat \<times> grid_row list \<times> database" where
  "insert_loop pg city_name indices gt diff_data [] st = (None, st)"
| "insert_loop pg city_name indices gt diff_data (i # is) st =
     (if fst st \<ge> limit then (None, st)
      else
        (case insert_hotspot pg city_name indices gt diff_data i st of
           (Some e, st') \<Rightarrow> (Some e, st')
         | (None, st') \<Rightarrow> insert_loop pg city_name indices gt diff_data is st'))"

text \<open>The body of the \<^verbatim>\<open>try\<close> block, lines 119 to 150.\<close>

definition export_try ::
  "psycopg2 \<Rightarrow> string \<Rightarrow> string \<Rightarrow> nat list \<times> nat list \<Rightarrow> geotransform \<Rightarrow> real list list \<Rightarrow>
   database \<Rightarrow> exn option \<times> database \<times> log list" where
  "export_try pg url city_name indices gt diff_data db =
     (let db = called (Connect url) db in
      case connect pg url of
        Some e \<Rightarrow> (Some e, db, [])
      | None \<Rightarrow>
          (let db = called Cursor db in
           case insert_loop pg city_name indices gt diff_data [0..<length (fst indices)] (0, [], db) of
             (Some e, count, pending, db) \<Rightarrow> (Some e, db, [])
           | (None, count, pending, db) \<Rightarrow>
               (let db = called Commit db in
                case commit pg of
                  Some e \<Rightarrow> (Some e, db, [])
                | None \<Rightarrow>
                    (let db = db\<lparr>analysis_grid := analysis_grid db @ pending\<rparr>;
                         db = called Close db
                     in (None, db, [UploadSuccess count city_name])))))"

text \<open>
  Python's \<^verbatim>\<open>not DB_URL\<close> holds for a variable that is unset and for the empty string.
\<close>

definition configured :: "string option \<Rightarrow> string option" where
  "configured DB_URL = (case DB_URL of None \<Rightarrow> None | Some u \<Rightarrow> if u = [] then None else Some u)"

text \<open>
  The function: without a connection string it only prints; otherwise every exception of
  the body is caught and printed.
\<close>

definition export_to_cloud ::
  "string option \<Rightarrow> psycopg2 \<Rightarrow> string \<Rightarrow> nat list \<times> nat list \<Rightarrow> geotransform \<Rightarrow>
   real list list \<Rightarrow> database \<Rightarrow> unit outcome \<times> database \<times> log list" where
  "export_to_cloud DB_URL pg city_name indices gt diff_data db =
     (case configured DB_URL of
        None \<Rightarrow> (Returned (), db, [Uploading city_name, SkippingUpload])
      | Some url \<Rightarrow>
          (case export_try pg url city_name indices gt diff_data db of
             (None, db', out) \<Rightarrow> (Returned (), db', Uploading city_name # out)
           | (Some e, db', out) \<Rightarrow>
               (Returned (), db', Uploading city_name # out @ [UploadFailed e])))"

text \<open>The rows a step added to the table, and the ring of points of a row's polygon.\<close>

definition rows_written :: "database \<Rightarrow> database \<Rightarrow> grid_row list" where
  "rows_written db db' = drop (length (analysis_grid db)) (analysis_grid db')"

definition ring :: "grid_row \<Rightarrow> (real \<times> real) list" where
  "ring r = (case geom r of ST_GeomFromText (POLYGON ps) srid \<Rightarrow> ps)"

definition srid :: "grid_row \<Rightarrow> nat" where
  "srid r = (case geom r of ST_GeomFromText poly n \<Rightarrow> n)"

text \<open>
  The row of the \<open>j\<close>-th hotspot of the index arrays, whether that hotspot lies inside
  the difference field, and the rows of the hotspots up to the cap.
\<close>

definition row_at :: "string \<Rightarrow> nat list \<times> nat list \<Rightarrow> geotransform \<Rightarrow> real list list \<Rightarrow> nat \<Rightarrow> grid_row" where
  "row_at city_name indices gt diff_data j =
     hotspot_row city_name gt diff_data j (fst indices ! j) (snd indices ! j)"

definition in_range :: "nat list \<times> nat list \<Rightarrow> real list list \<Rightarrow> nat \<Rightarrow> bool" where
  "in_range indices diff_data j =
     (j < length (snd indices) \<and> fst indices ! j < length diff_data \<and>
      snd indices ! j < length (diff_data ! (fst indices ! j)))"

definition rows_of :: "string \<Rightarrow> nat list \<times> nat list \<Rightarrow> geotransform \<Rightarrow> real list list \<Rightarrow> grid_row list" where
  "rows_of city_name indices gt diff_data =
     map (row_at city_name indices gt diff_data) [0..<min (length (fst indices)) limit]"

text \<open>Row-major scan order: an earlier row, or the same row and an earlier column.\<close>

definition scan_before :: "nat \<times> nat \<Rightarrow> nat \<times> nat \<Rightarrow> bool" where
  "scan_before p q = (fst p < fst q \<or> (fst p = fst q \<and> snd p < snd q))"

subsection \<open>download\_real\_viirs (etl\_main.py, lines 33 to 71)\<close>

record city =
  name :: string
  bbox :: "real \<times> real \<times> real \<times> real"

text \<open>
  The archive client: \<^verbatim>\<open>login(strategy).authenticated\<close>, \<^verbatim>\<open>search_data\<close> for a bounding
  box and a date (the granules found), \<^verbatim>\<open>download\<close> (the local paths); and
  \<^verbatim>\<open>os.path.getsize\<close>. Each may raise.
\<close>

record earthaccess =
  login :: "string \<Rightarrow> exn + bool"
  search_data :: "real \<times> real \<times> real \<times> real \<Rightarrow> string \<Rightarrow> exn + string list"
  download :: "string list \<Rightarrow> exn + string list"
  getsize :: "string \<Rightarrow> exn + nat"

definition emit :: "log list \<Rightarrow> 'a \<times> log list \<Rightarrow> 'a \<times> log list" where
  "emit out r = (fst r, out @ snd r)"

text \<open>
  Lines 47 to 69, the loop over the dates. An exception of \<^verbatim>\<open>search_data\<close> is outside the
  \<^verbatim>\<open>try\<close> and leaves the function; one of \<^verbatim>\<open>download\<close> or \<^verbatim>\<open>getsize\<close> is caught and
  printed, and the date is skipped.
\<close>

fun download_dates ::
  "earthaccess \<Rightarrow> city \<Rightarrow> string list \<Rightarrow> string list \<Rightarrow> string list outcome \<times> log list" where
  "download_dates ea c [] final_paths = (Returned final_paths, [])"
| "download_dates ea c (date # dates) final_paths =
     (case search_data ea (bbox c) date of
        Inl e \<Rightarrow> (Raised e, [Querying date])
      | Inr results \<Rightarrow>
          if results = [] then
            emit [Querying date, NoData date] (download_dates ea c dates final_paths)
          else
            (case download ea results of
               Inl e \<Rightarrow>
                 emit [Querying date, DownloadError e] (download_dates ea c dates final_paths)
             | Inr downloaded \<Rightarrow>
                 if downloaded = [] then
                   emit [Querying date] (download_dates ea c dates final_paths)
                 else
                   (let path = hd downloaded in
                    case getsize ea path of
                      Inl e \<Rightarrow>
                        emit [Querying date, DownloadError e]
                          (download_dates ea c dates final_paths)
                    | Inr nbytes \<Rightarrow>
                        if nbytes < 1000 then
                          emit [Querying date, CorruptFile path]
                            (download_dates ea c dates final_paths)
                        else
                          emit [Querying date]
                            (download_dates ea c dates (final_paths @ [path])))))"

definition dates :: "string list" where
  "dates = [''2022-01-15'', ''2023-01-15'']"

definition download_real_viirs :: "earthaccess \<Rightarrow> city \<Rightarrow> string list outcome \<times> log list" where
  "download_real_viirs ea c =
     emit [Downloading (name c)]
       (case login ea ''environment'' of
          Inl e \<Rightarrow> (Raised e, [])
        | Inr True \<Rightarrow> download_dates ea c dates []
        | Inr False \<Rightarrow>
            (case login ea ''interactive'' of
               Inl e \<Rightarrow> (Raised e, [])
             | Inr True \<Rightarrow> download_dates ea c dates []
             | Inr False \<Rightarrow> (SystemExit 1, [AuthenticationFailed])))"

subsection \<open>The main loop (etl\_main.py, lines 158 to 179)\<close>

record world =
  DB_URL :: "string option"
  archive :: earthaccess
  gdal_Open :: gdal
  driver :: psycopg2

text \<open>Lines 163 to 174, the body of the \<^verbatim>\<open>try\<close> block for one city.\<close>

definition process_city_try :: "world \<Rightarrow> city \<Rightarrow> database \<Rightarrow> unit outcome \<times> database \<times> log list" where
  "process_city_try w c db =
     (case download_real_viirs (archive w) c of
        (Raised e, out) \<Rightarrow> (Raised e, db, out)
      | (SystemExit n, out) \<Rightarrow> (SystemExit n, db, out)
      | (Returned files, out) \<Rightarrow>
          if length files \<ge> 2 then
            (case analyze_change (gdal_Open w) files of
               (Raised e, out2) \<Rightarrow> (Raised e, db, out @ out2)
             | (SystemExit n, out2) \<Rightarrow> (SystemExit n, db, out @ out2)
             | (Returned None, out2) \<Rightarrow> (Returned (), db, out @ out2)
             | (Returned (Some (indices, gt, diff)), out2) \<Rightarrow>
                 (case export_to_cloud (DB_URL w) (driver w) (name c) indices gt diff db of
                    (r, db', out3) \<Rightarrow> (r, db', out @ out2 @ out3)))
          else (Returned (), db, out @ [SkippingCity (name c)]))"

text \<open>Lines 162 to 177: \<^verbatim>\<open>except Exception\<close> at the boundary of the city.\<close>

definition process_city :: "world \<Rightarrow> city \<Rightarrow> database \<Rightarrow> unit outcome \<times> database \<times> log list" where
  "process_city w c db =
     (case process_city_try w c db of
        (Raised e, db', out) \<Rightarrow> (Returned (), db', out @ [CriticalError (name c) e])
      | r \<Rightarrow> r)"

definition TARGET_CITIES :: "city list" where
  "TARGET_CITIES =
     [\<lparr>name = ''Lahore'', bbox = (73.5, 31.0, 75.0, 32.0)\<rparr>,
      \<lparr>name = ''New York'', bbox = (-74.3, 40.5, -73.5, 41.0)\<rparr>,
      \<lparr>name = ''London'', bbox = (-0.5, 51.3, 0.3, 51.7)\<rparr>,
      \<lparr>name = ''Tokyo'', bbox = (139.3, 35.5, 140.0, 35.9)\<rparr>]"

text \<open>The loop over the cities; \<^verbatim>\<open>SystemExit\<close> ends the process.\<close>

fun main_loop :: "world \<Rightarrow> city list \<Rightarrow> database \<Rightarrow> unit outcome \<times> database \<times> log list" where
  "main_loop w [] db = (Returned (), db, [])"
| "main_loop w (c # cs) db =
     (case process_city w c db of
        (Returned u, db', out) \<Rightarrow>
          (case main_loop w cs db' of (r, db'', out') \<Rightarrow> (r, db'', out @ out'))
      | r \<Rightarrow> r)"

text \<open>
  The script: the banner, the loop, and the closing line when the loop comes to its end.
\<close>

definition main :: "world \<Rightarrow> database \<Rightarrow> unit outcome \<times> database \<times> log list" where
  "main w db =
     (case main_loop w TARGET_CITIES db of
        (Returned u, db', out) \<Rightarrow> (Returned u, db', StartingPipeline # out @ [CycleComplete])
      | (r, db', out) \<Rightarrow> (r, db', StartingPipeline # out))"

section \<open>The ingest scaffold (scripts/ingest\_viirs/ingest.py)\<close>

record Provenance =
  product :: string
  year :: int
  created_at_utc :: string
  source :: string
  "notes" :: string

datatype json = JString string | JInt int | JObject "(string \<times> json) list"

text \<open>\<^verbatim>\<open>dataclasses.asdict\<close>: the fields in the order of their declaration.\<close>

definition asdict :: "Provenance \<Rightarrow> (string \<times> json) list" where
  "asdict prov =
     [(''product'', JString (product prov)),
      (''year'', JInt (year prov)),
      (''created_at_utc'', JString (created_at_utc prov)),
      (''source'', JString (source prov)),
      (''notes'', JString (notes prov))]"

text \<open>
  A path is the list of its components. A file written is its path and its content:
  a text, or the JSON document that \<^verbatim>\<open>json.dumps\<close> renders (the rendering itself is not
  modelled).
\<close>

datatype content = Text string | Json json

text \<open>
  \<^verbatim>\<open>out_path.with_suffix(out_path.suffix + ".provenance.json")\<close> replaces the suffix of
  the last component by itself followed by \<^verbatim>\<open>.provenance.json\<close>, and appends to a name
  without suffix: in both cases the last component is extended.
\<close>

definition write_provenance :: "string list \<Rightarrow> Provenance \<Rightarrow> string list \<times> content" where
  "write_provenance out_path prov =
     (butlast out_path @ [last out_path @ ''.provenance.json''], Json (JObject (asdict prov)))"

text \<open>
  The parsed command line: \<^verbatim>\<open>--year\<close> is required, the others have defaults (the default
  output root depends on where the script lies and is a parameter here).
\<close>

record args =
  args_year :: int
  args_output_root :: "string option"
  args_source :: "string option"
  args_notes :: "string option"

definition default_source :: string where
  "default_source = ''TBD (configure actual NASA/NOAA VIIRS product source)''"

definition default_notes :: string where
  "default_notes =
     ''Scaffold output (no real download performed). Replace with real acquisition + processing.''"

definition or_default :: "'a option \<Rightarrow> 'a \<Rightarrow> 'a" where
  "or_default v d = (case v of None \<Rightarrow> d | Some x \<Rightarrow> x)"

text \<open>
  \<^verbatim>\<open>main\<close> of the scaffold, lines 58 to 89: the files it writes, in order, and its exit
  code. \<open>now_utc\<close> is \<^verbatim>\<open>datetime.now(timezone.utc).isoformat()\<close>.
\<close>

definition ingest_main :: "string \<Rightarrow> string \<Rightarrow> args \<Rightarrow> (string list \<times> content) list \<times> int" where
  "ingest_main default_output_root now_utc a =
     (let out_dir = [or_default (args_output_root a) default_output_root,
                     ''viirs'', ''nightly_lights'', str_int (args_year a)];
          placeholder = out_dir @ [''VIIRS_Night_Lights_'' @ str_int (args_year a) @ ''__PLACEHOLDER.txt''];
          text = ''This is a placeholder file.\<newline>'' @
                 ''Replace with a GeoTIFF produced by your VIIRS ingestion pipeline.\<newline>'' @
                 ''GeoServer mount inside container: /opt/nocturna_rasters\<newline>'';
          prov = \<lparr>product = ''VIIRS Nighttime Lights (raster)'',
                  year = args_year a,
                  created_at_utc = now_utc,
                  source = or_default (args_source a) default_source,
                  notes = or_default (args_notes a) default_notes\<rparr>
      in ([(placeholder, Text text), write_provenance placeholder prov], 0))"

section \<open>The scenario of the specification\<close>

text \<open>
  Two files whose radiance layers are the arrays given, with a north-up transform of
  half a degree per pixel, and a database that accepts everything.
\<close>

definition scenario_gt :: geotransform where
  "scenario_gt = (70, 1/2, 0, 30, 0, -1/2)"

definition scenario_gdal :: "u16 list list \<Rightarrow> u16 list list \<Rightarrow> gdal" where
  "scenario_gdal older newer file =
     (if file = ''a.h5'' then
        Some \<lparr>GetSubDatasets = [(''QF'', ''flags''), (''a:'' @ layer_name, ''radiance'')],
              ReadAsArray = None, GetGeoTransform = (0, 1, 0, 0, 0, 1)\<rparr>
      else if file = ''b.h5'' then
        Some \<lparr>GetSubDatasets = [(''b:'' @ layer_name, ''radiance'')],
              ReadAsArray = None, GetGeoTransform = (0, 1, 0, 0, 0, 1)\<rparr>
      else if file = ''a:'' @ layer_name then
        Some \<lparr>GetSubDatasets = [], ReadAsArray = Some older, GetGeoTransform = scenario_gt\<rparr>
      else if file = ''b:'' @ layer_name then
        Some \<lparr>GetSubDatasets = [], ReadAsArray = Some newer, GetGeoTransform = scenario_gt\<rparr>
      else None)"

definition scenario_files :: "string list" where
  "scenario_files = [''a.h5'', ''b.h5'']"

definition accepting :: psycopg2 where
  "accepting = \<lparr>connect = (\<lambda>url. None), execute = (\<lambda>row. None), commit = None\<rparr>"

definition empty_db :: database where
  "empty_db = \<lparr>analysis_grid = [], calls = []\<rparr>"

definition scenario_archive :: earthaccess where
  "scenario_archive =
     \<lparr>login = (\<lambda>strategy. Inr True),
      search_data = (\<lambda>box date. Inr [date]),
      download = (\<lambda>results. Inr (if results = [''2022-01-15''] then [''a.h5''] else [''b.h5''])),
      getsize = (\<lambda>path. Inr 4096)\<rparr>"

definition scenario_world :: "u16 list list \<Rightarrow> u16 list list \<Rightarrow> world" where
  "scenario_world older newer =
     \<lparr>DB_URL = Some ''postgresql://db'', archive = scenario_archive,
      gdal_Open = scenario_gdal older newer, driver = accepting\<rparr>"

definition region_X :: city where
  "region_X = \<lparr>name = ''X'', bbox = (69, 28, 72, 31)\<rparr>"

text \<open>
  An archive that has nothing for the second date, and one whose search raises at the
  second date.
\<close>

definition sparse_archive :: earthaccess where
  "sparse_archive = scenario_archive\<lparr>search_data := (\<lambda>box date. Inr (if date = ''2022-01-15'' then [date] else []))\<rparr>"

definition failing_archive :: earthaccess where
  "failing_archive =
     scenario_archive\<lparr>search_data := (\<lambda>box date.
        if date = ''2022-01-15'' then Inr [date] else Inl (LibraryError ''timeout''))\<rparr>"

text \<open>A transform with rotation terms.\<close>

definition rotated_gt :: geotransform where
  "rotated_gt = (70, 1/2, 1/4, 30, 1/8, - 1/2)"

text \<open>
  A driver that refuses the second insert of region X, and one whose commit raises.
\<close>

definition rejecting :: psycopg2 where
  "rejecting =
     accepting\<lparr>execute := (\<lambda>row. if cell_id row = ''X_1'' then Some (LibraryError ''insert'') else None)\<rparr>"

definition uncommitting :: psycopg2 where
  "uncommitting = accepting\<lparr>commit := Some (LibraryError ''commit'')\<rparr>"

text \<open>The keys of the sidecar among the files written: the second file is the sidecar.\<close>

definition sidecar_keys :: "(string list \<times> content) list \<Rightarrow> string list" where
  "sidecar_keys files =
     (case snd (files ! 1) of Json (JObject kvs) \<Rightarrow> map fst kvs | _ \<Rightarrow> [])"

text \<open>A command line with the year only.\<close>

definition year_only :: args where
  "year_only = \<lparr>args_year = 2023, args_output_root = None, args_source = None, args_notes = None\<rparr>"

text \<open>An export of twelve hotspots in one row of the field, each with delta 6.\<close>

definition dozen_run :: "unit outcome \<times> database \<times> log list" where
  "dozen_run =
     export_to_cloud (Some ''postgresql://db'') accepting ''X'' (replicate 12 0, [0..<12])
       scenario_gt [replicate 12 6] empty_db"

section \<open>Properties of the embedding\<close>

subsection \<open>The analyzer\<close>

lemma sequence_map_Inr: "sequence (map Inr xs) = Inr xs"
  by (induction xs) simp_all

lemma sub_row_same: "length r = length s \<Longrightarrow> sub_row r s = Inr (map2 (-) r s)"
  by (simp add: sub_row_def)

lemma map2_sub_row_same:
  "length a = length b \<Longrightarrow> \<forall>i<length a. length (a ! i) = length (b ! i) \<Longrightarrow>
   map2 sub_row a b = map Inr (map2 (map2 (-)) a b)"
proof (induction a b rule: list_induct2)
  case Nil
  then show ?case by simp
next
  case (Cons x xs y ys)
  from Cons.prems have h: "length x = length y" by (metis length_Cons nth_Cons_0 zero_less_Suc)
  from Cons.prems have "\<forall>i<length xs. length (xs ! i) = length (ys ! i)" by fastforce
  with Cons.IH h show ?case by (simp add: sub_row_same)
qed

lemma same_shape_rows:
  assumes "ndarray2d a" "ndarray2d b" "shape a = shape b"
  shows "length a = length b \<and> (\<forall>i<length a. length (a ! i) = length (b ! i))"
  using assms by (auto simp: ndarray2d_def shape_def list_all_length)

lemma ndarray_sub_same:
  assumes "length a = length b" "\<forall>i<length a. length (a ! i) = length (b ! i)"
  shows "ndarray_sub a b = Inr (map2 (map2 (-)) a b)"
proof -
  have "map2 sub_row a b = map Inr (map2 (map2 (-)) a b)"
    using assms by (rule map2_sub_row_same)
  then have "sequence (map2 sub_row a b) = Inr (map2 (map2 (-)) a b)"
    by (simp only: sequence_map_Inr)
  with assms(1) show ?thesis by (simp add: ndarray_sub_def)
qed

lemma set_true_positions:
  "set (true_positions m) = {(r, c). r < length m \<and> c < length (m ! r) \<and> m ! r ! c}"
  by (auto simp: true_positions_def)

lemma astype_float_rows:
  "length (astype_float a) = length a"
  "i < length a \<Longrightarrow> length (astype_float a ! i) = length (a ! i)"
  "i < length a \<Longrightarrow> j < length (a ! i) \<Longrightarrow> astype_float a ! i ! j = real (unat (a ! i ! j))"
  by (simp_all add: astype_float_def)

lemma open_layer_band:
  "open_layer g f = Inr (sub, arr) \<Longrightarrow> \<exists>band. g sub = Some band \<and> ReadAsArray band = arr"
  by (auto simp: open_layer_def split: option.splits list.splits)

lemma analyze_change_try_ok:
  assumes o: "open_layer g (files ! 0) = Inr (sub_old, Some A)"
    and n: "open_layer g (files ! 1) = Inr (sub_new, Some B)"
    and sh: "ndarray2d A" "ndarray2d B" "shape A = shape B"
  shows "analyze_change_try g files =
     Inr ((np_where (map (map (\<lambda>v. v > 5)) (diff_of B A)), GetGeoTransform (the (g sub_new)), diff_of B A),
          [FoundHotspots (length (true_positions (map (map (\<lambda>v. v > 5)) (diff_of B A))))])"
proof -
  from same_shape_rows [OF sh(2,1)] sh(3)
  have r: "length B = length A" "\<forall>i<length B. length (B ! i) = length (A ! i)" by simp_all
  have "ndarray_sub (astype_float B) (astype_float A) = Inr (diff_of B A)"
    unfolding diff_of_def by (rule ndarray_sub_same) (simp_all add: r astype_float_rows)
  moreover from open_layer_band [OF n] obtain band where "g sub_new = Some band" by blast
  ultimately show ?thesis
    using o n by (simp add: analyze_change_try_def np_where_def)
qed

lemma diff_of_nth:
  assumes "length B = length A" "\<forall>i<length B. length (B ! i) = length (A ! i)"
  shows "length (diff_of B A) = length B"
    and "r < length B \<Longrightarrow> length (diff_of B A ! r) = length (B ! r)"
    and "r < length B \<Longrightarrow> c < length (B ! r) \<Longrightarrow>
         diff_of B A ! r ! c = real (unat (B ! r ! c)) - real (unat (A ! r ! c))"
  using assms by (simp_all add: diff_of_def astype_float_rows)

lemma row_positions_sorted:
  "sorted_wrt scan_before (concat (map (\<lambda>c. if P c then [(r, c)] else []) [0..<k])) \<and>
   (\<forall>p \<in> set (concat (map (\<lambda>c. if P c then [(r, c)] else []) [0..<k])). fst p = r \<and> snd p < k)"
proof (induction k)
  case 0
  then show ?case by simp
next
  case (Suc k)
  let ?old = "concat (map (\<lambda>c. if P c then [(r, c)] else []) [0..<k])"
  from Suc have o: "sorted_wrt scan_before ?old" "\<forall>p \<in> set ?old. fst p = r \<and> snd p < k" by blast+
  from o(2) have x: "\<forall>p \<in> set ?old. scan_before p (r, k)"
    by (simp add: scan_before_def)
  have "sorted_wrt scan_before (?old @ (if P k then [(r, k)] else []))"
    using o(1) x by (simp add: sorted_wrt_append)
  moreover have "\<forall>p \<in> set (?old @ (if P k then [(r, k)] else [])). fst p = r \<and> snd p < Suc k"
    using o(2) by (auto simp: less_Suc_eq)
  ultimately show ?case by simp
qed

lemma all_positions_sorted:
  "sorted_wrt scan_before
     (concat (map (\<lambda>r. concat (map (\<lambda>c. if P r c then [(r, c)] else []) [0..<K r])) [0..<n])) \<and>
   (\<forall>p \<in> set (concat (map (\<lambda>r. concat (map (\<lambda>c. if P r c then [(r, c)] else []) [0..<K r])) [0..<n])).
      fst p < n)"
proof (induction n)
  case 0
  then show ?case by simp
next
  case (Suc n)
  let ?old = "concat (map (\<lambda>r. concat (map (\<lambda>c. if P r c then [(r, c)] else []) [0..<K r])) [0..<n])"
  let ?row = "concat (map (\<lambda>c. if P n c then [(n, c)] else []) [0..<K n])"
  have r: "sorted_wrt scan_before ?row" "\<forall>p \<in> set ?row. fst p = n"
    using row_positions_sorted [of "P n" n "K n"] by blast+
  from Suc have o: "sorted_wrt scan_before ?old" "\<forall>p \<in> set ?old. fst p < n" by blast+
  from o(2) r(2) have x: "\<forall>p \<in> set ?old. \<forall>q \<in> set ?row. scan_before p q"
    by (simp add: scan_before_def)
  have "sorted_wrt scan_before (?old @ ?row)"
    using o(1) r(1) x by (simp only: sorted_wrt_append simp_thms)
  moreover have "\<forall>p \<in> set (?old @ ?row). fst p < Suc n"
    using o(2) r(2) by (auto simp: less_Suc_eq)
  ultimately show ?case by simp
qed

lemma true_positions_sorted: "sorted_wrt scan_before (true_positions m)"
  using all_positions_sorted [of "\<lambda>r c. m ! r ! c" "\<lambda>r. length (m ! r)" "length m"]
  by (simp add: true_positions_def)

lemma analyze_change_Some:
  assumes "analyze_change g files = (Returned (Some ((ys, xs), gt, d)), out)"
  shows "\<exists>m. np_where m = (ys, xs)"
  using assms
  by (auto simp: analyze_change_def analyze_change_try_def Let_def
      split: if_splits sum.splits option.splits prod.splits)

lemma np_where_scan_order:
  assumes "np_where m = (ys, xs)"
  shows "sorted_wrt scan_before (zip ys xs) \<and> length xs = length ys"
proof -
  from assms have "ys = map fst (true_positions m)" "xs = map snd (true_positions m)"
    by (simp_all add: np_where_def)
  then have "zip ys xs = true_positions m" "length xs = length ys"
    by (simp_all add: zip_map_fst_snd)
  then show ?thesis by (simp add: true_positions_sorted)
qed

subsection \<open>The exporter\<close>

lemma insert_hotspot_None:
  assumes "insert_hotspot pg c idx gt d i (k, pending, db) = (None, st')"
  shows "in_range idx d i \<and> execute pg (hotspot_row c gt d k (fst idx ! i) (snd idx ! i)) = None \<and>
         st' = (k + 1, pending @ [hotspot_row c gt d k (fst idx ! i) (snd idx ! i)],
                called (Execute (hotspot_row c gt d k (fst idx ! i) (snd idx ! i))) db)"
  using assms
  by (auto simp: insert_hotspot_def in_range_def Let_def split: if_splits option.splits)

lemma insert_hotspot_Some:
  assumes "insert_hotspot pg c idx gt d i (k, pending, db) = (Some e, k', pending', db')"
  shows "analysis_grid db' = analysis_grid db \<and>
         (\<exists>cs. calls db' = calls db @ cs \<and> Commit \<notin> set cs \<and> length cs \<le> 1)"
  using assms
  by (auto simp: insert_hotspot_def called_def Let_def split: if_splits option.splits)

lemma insert_loop_None:
  assumes "insert_loop pg c idx gt d [i..<n] (i, pending, db) = (None, k', pending', db')"
  shows "k' = max i (min n limit) \<and>
         pending' = pending @ map (row_at c idx gt d) [i..<min n limit] \<and>
         calls db' = calls db @ map (\<lambda>j. Execute (row_at c idx gt d j)) [i..<min n limit] \<and>
         analysis_grid db' = analysis_grid db \<and>
         (\<forall>j. i \<le> j \<and> j < min n limit \<longrightarrow> in_range idx d j \<and> execute pg (row_at c idx gt d j) = None)"
  using assms
proof (induction "n - i" arbitrary: i pending db)
  case 0
  then show ?case by auto
next
  case (Suc m)
  then have lt: "i < n" by simp
  then have up: "[i..<n] = i # [Suc i..<n]" by (simp add: upt_rec)
  show ?case
  proof (cases "limit \<le> i")
    case True
    with Suc.prems up show ?thesis by auto
  next
    case False
    with Suc.prems up obtain st' where
      h: "insert_hotspot pg c idx gt d i (i, pending, db) = (None, st')"
      and l: "insert_loop pg c idx gt d [Suc i..<n] st' = (None, k', pending', db')"
      by (auto split: prod.splits option.splits)
    note s = insert_hotspot_None [OF h]
    from s l have l': "insert_loop pg c idx gt d [Suc i..<n]
        (Suc i, pending @ [row_at c idx gt d i], called (Execute (row_at c idx gt d i)) db) =
        (None, k', pending', db')"
      by (simp add: row_at_def)
    from Suc.hyps(2) have m: "m = n - Suc i" by simp
    note ih = Suc.hyps(1) [OF m l']
    from False lt have r: "[i..<min n limit] = i # [Suc i..<min n limit]"
      by (simp add: upt_rec)
    have "\<forall>j. i \<le> j \<and> j < min n limit \<longrightarrow> in_range idx d j \<and> execute pg (row_at c idx gt d j) = None"
    proof (intro allI impI)
      fix j assume j: "i \<le> j \<and> j < min n limit"
      show "in_range idx d j \<and> execute pg (row_at c idx gt d j) = None"
      proof (cases "j = i")
        case True
        with s show ?thesis by (simp add: row_at_def)
      next
        case False
        with j have "Suc i \<le> j \<and> j < min n limit" by simp
        with ih show ?thesis by blast
      qed
    qed
    moreover from False lt have "max (Suc i) (min n limit) = max i (min n limit)" by simp
    ultimately show ?thesis using ih r by (simp add: called_def)
  qed
qed

lemma insert_loop_Some:
  assumes "insert_loop pg c idx gt d is (k, pending, db) = (Some e, k', pending', db')"
  shows "analysis_grid db' = analysis_grid db \<and>
         (\<exists>cs. calls db' = calls db @ cs \<and> Commit \<notin> set cs)"
  using assms
proof (induction "is" arbitrary: k pending db)
  case Nil
  then show ?case by simp
next
  case (Cons i "is")
  show ?case
  proof (cases "limit \<le> k")
    case True
    with Cons.prems show ?thesis by simp
  next
    case False
    show ?thesis
    proof (cases "insert_hotspot pg c idx gt d i (k, pending, db)")
      case (fields r k1 p1 db1)
      show ?thesis
      proof (cases r)
        case None
        with fields False Cons.prems
        have l: "insert_loop pg c idx gt d is (k1, p1, db1) = (Some e, k', pending', db')" by simp
        from fields None insert_hotspot_None [of pg c idx gt d i k pending db "(k1, p1, db1)"]
        have "db1 = called (Execute (hotspot_row c gt d k (fst idx ! i) (snd idx ! i))) db" by simp
        with Cons.IH [OF l] show ?thesis by (auto simp: called_def)
      next
        case (Some e')
        with fields False Cons.prems
        have "insert_hotspot pg c idx gt d i (k, pending, db) = (Some e, k', pending', db')" by simp
        from insert_hotspot_Some [OF this] show ?thesis by blast
      qed
    qed
  qed
qed

lemma insert_loop_ok:
  assumes "\<forall>j. i \<le> j \<and> j < min n limit \<longrightarrow> in_range idx d j \<and> execute pg (row_at c idx gt d j) = None"
  shows "fst (insert_loop pg c idx gt d [i..<n] (i, pending, db)) = None"
  using assms
proof (induction "n - i" arbitrary: i pending db)
  case 0
  then show ?case by simp
next
  case (Suc m)
  then have lt: "i < n" by simp
  then have up: "[i..<n] = i # [Suc i..<n]" by (simp add: upt_rec)
  show ?case
  proof (cases "limit \<le> i")
    case True
    with up show ?thesis by simp
  next
    case False
    with lt Suc.prems have ok: "in_range idx d i" "execute pg (row_at c idx gt d i) = None" by simp_all
    then have h: "insert_hotspot pg c idx gt d i (i, pending, db) =
        (None, Suc i, pending @ [row_at c idx gt d i], called (Execute (row_at c idx gt d i)) db)"
      by (simp add: insert_hotspot_def in_range_def row_at_def Let_def)
    from Suc.hyps(2) have m: "m = n - Suc i" by simp
    from Suc.prems have "\<forall>j. Suc i \<le> j \<and> j < min n limit \<longrightarrow>
        in_range idx d j \<and> execute pg (row_at c idx gt d j) = None" by simp
    from Suc.hyps(1) [OF m this] h up False show ?thesis by simp
  qed
qed

lemma export_try_None:
  assumes "export_try pg url c idx gt d db = (None, db', out)"
  shows "connect pg url = None \<and> commit pg = None \<and>
         analysis_grid db' = analysis_grid db @ rows_of c idx gt d \<and>
         calls db' = calls db @ [Connect url, Cursor] @ map Execute (rows_of c idx gt d) @ [Commit, Close] \<and>
         out = [UploadSuccess (min (length (fst idx)) limit) c] \<and>
         (\<forall>j < min (length (fst idx)) limit. in_range idx d j \<and> execute pg (row_at c idx gt d j) = None)"
proof -
  let ?db2 = "called Cursor (called (Connect url) db)"
  from assms have c: "connect pg url = None"
    by (auto simp: export_try_def Let_def split: option.splits)
  obtain r k p db1 where
    l: "insert_loop pg c idx gt d [0..<length (fst idx)] (0, [], ?db2) = (r, k, p, db1)"
    by (metis prod_cases4)
  from assms c l have r: "r = None"
    by (cases r) (auto simp: export_try_def Let_def)
  from assms c l r have m: "commit pg = None"
    by (auto simp: export_try_def Let_def split: option.splits)
  from assms c l r m have e: "db' = called Close ((called Commit db1)\<lparr>analysis_grid := analysis_grid (called Commit db1) @ p\<rparr>)"
    "out = [UploadSuccess k c]"
    by (auto simp: export_try_def Let_def)
  from insert_loop_None [OF l [unfolded r]] e c m show ?thesis
    by (simp add: called_def rows_of_def comp_def)
qed

lemma export_try_Some:
  assumes "export_try pg url c idx gt d db = (Some e, db', out)"
  shows "analysis_grid db' = analysis_grid db \<and> out = [] \<and>
         (\<exists>cs. calls db' = calls db @ cs \<and> length (filter (\<lambda>x. x = Commit) cs) \<le> 1)"
proof -
  let ?db2 = "called Cursor (called (Connect url) db)"
  obtain r k p db1 where
    l: "insert_loop pg c idx gt d [0..<length (fst idx)] (0, [], ?db2) = (r, k, p, db1)"
    by (metis prod_cases4)
  show ?thesis
  proof (cases "connect pg url")
    case (Some e')
    with assms show ?thesis by (auto simp: export_try_def Let_def called_def)
  next
    case None
    show ?thesis
    proof (cases r)
      case (Some e')
      from insert_loop_Some [OF l [unfolded Some]] obtain cs where
        "analysis_grid db1 = analysis_grid db" "calls db1 = calls db @ [Connect url, Cursor] @ cs"
        "Commit \<notin> set cs"
        by (auto simp: called_def)
      moreover from this(3) have "filter (\<lambda>x. x = Commit) cs = []"
        by (induction cs) auto
      moreover from assms None l Some have "db' = db1" "out = []"
        by (auto simp: export_try_def Let_def)
      ultimately show ?thesis by simp
    next
      case n: None
      from insert_loop_None [OF l [unfolded n]]
      have g: "analysis_grid db1 = analysis_grid db"
        and cl: "calls db1 = calls db @ [Connect url, Cursor] @ map Execute (rows_of c idx gt d)"
        by (simp_all add: called_def rows_of_def comp_def)
      have f: "filter (\<lambda>x. x = Commit) (map Execute (rows_of c idx gt d)) = []"
        by (induction "rows_of c idx gt d") (auto simp: filter_empty_conv)
      from assms None l n have "db' = called Commit db1" "out = []"
        by (auto simp: export_try_def Let_def split: option.splits)
      with g cl f show ?thesis by (simp add: called_def)
    qed
  qed
qed

lemma export_try_ok:
  assumes "connect pg url = None" "commit pg = None"
    and "\<forall>j < min (length (fst idx)) limit. in_range idx d j \<and> execute pg (row_at c idx gt d j) = None"
  shows "fst (export_try pg url c idx gt d db) = None"
proof -
  let ?db2 = "called Cursor (called (Connect url) db)"
  from assms(3) have "fst (insert_loop pg c idx gt d [0..<length (fst idx)] (0, [], ?db2)) = None"
    by (intro insert_loop_ok) simp
  then obtain k p db1 where
    "insert_loop pg c idx gt d [0..<length (fst idx)] (0, [], ?db2) = (None, k, p, db1)"
    by (metis fst_conv prod_cases4)
  with assms(1,2) show ?thesis by (simp add: export_try_def Let_def)
qed

lemma export_try_raises:
  "fst (export_try pg url c idx gt d db) = None \<longleftrightarrow>
     connect pg url = None \<and>
     fst (insert_loop pg c idx gt d [0..<length (fst idx)]
            (0, [], called Cursor (called (Connect url) db))) = None \<and>
     commit pg = None"
  by (auto simp: export_try_def Let_def split: option.splits prod.splits)

lemma export_to_cloud_cases:
  obtains
    (skipped) "configured db_url = None"
      "export_to_cloud db_url pg c idx gt d db = (Returned (), db, [Uploading c, SkippingUpload])"
  | (failed) url e db' where "configured db_url = Some url"
      "export_try pg url c idx gt d db = (Some e, db', [])"
      "export_to_cloud db_url pg c idx gt d db = (Returned (), db', [Uploading c, UploadFailed e])"
      "analysis_grid db' = analysis_grid db"
      "\<exists>cs. calls db' = calls db @ cs \<and> length (filter (\<lambda>x. x = Commit) cs) \<le> 1"
  | (uploaded) url db' where "configured db_url = Some url"
      "export_try pg url c idx gt d db =
         (None, db', [UploadSuccess (min (length (fst idx)) limit) c])"
      "export_to_cloud db_url pg c idx gt d db =
         (Returned (), db', [Uploading c, UploadSuccess (min (length (fst idx)) limit) c])"
      "analysis_grid db' = analysis_grid db @ rows_of c idx gt d"
      "calls db' = calls db @ [Connect url, Cursor] @ map Execute (rows_of c idx gt d) @ [Commit, Close]"
      "\<forall>j < min (length (fst idx)) limit. in_range idx d j \<and> execute pg (row_at c idx gt d j) = None"
      "connect pg url = None" "commit pg = None"
proof (cases "configured db_url")
  case None
  then have "export_to_cloud db_url pg c idx gt d db = (Returned (), db, [Uploading c, SkippingUpload])"
    by (simp add: export_to_cloud_def)
  with None show ?thesis by (rule skipped)
next
  case (Some url)
  obtain r db' out where t: "export_try pg url c idx gt d db = (r, db', out)"
    by (metis prod_cases3)
  show ?thesis
  proof (cases r)
    case None
    note n = export_try_None [OF t [unfolded None]]
    from n have o: "out = [UploadSuccess (min (length (fst idx)) limit) c]" by blast
    have "export_to_cloud db_url pg c idx gt d db =
        (Returned (), db', [Uploading c, UploadSuccess (min (length (fst idx)) limit) c])"
      using Some t None o by (simp add: export_to_cloud_def)
    with Some t None o n show ?thesis by (intro uploaded [of url db']) blast+
  next
    case e: (Some e)
    note s = export_try_Some [OF t [unfolded e]]
    from s have o: "out = []" by blast
    have "export_to_cloud db_url pg c idx gt d db = (Returned (), db', [Uploading c, UploadFailed e])"
      using Some t e o by (simp add: export_to_cloud_def)
    with Some t e o s show ?thesis by (intro failed [of url e db']) blast+
  qed
qed

lemma length_rows_of: "length (rows_of c idx gt d) = min (length (fst idx)) limit"
  by (simp add: rows_of_def)

lemma rows_of_nth: "j < min (length (fst idx)) limit \<Longrightarrow> rows_of c idx gt d ! j = row_at c idx gt d j"
  by (simp add: rows_of_def)

lemma rows_written_append: "analysis_grid db' = analysis_grid db @ rows \<Longrightarrow> rows_written db db' = rows"
  by (simp add: rows_written_def)

lemma row_at_fields:
  "cell_id (row_at c (ys, xs) gt d j) = c @ ''_'' @ str_nat j"
  "mean_radiance_2024 (row_at c (ys, xs) gt d j) = d ! (ys ! j) ! (xs ! j)"
  "trend_slope (row_at c (ys, xs) gt d j) = d ! (ys ! j) ! (xs ! j)"
  "risk_level (row_at c (ys, xs) gt d j) = ''Critical''"
  "srid (row_at c (ys, xs) gt d j) = 4326"
  by (simp_all add: row_at_def hotspot_row_def srid_def Let_def split: prod.splits)

lemma row_at_ring:
  "ring (row_at c (ys, xs) (g0, g1, g2, g3, g4, g5) d j) =
     (let lon = g0 + real (xs ! j) * g1 + real (ys ! j) * g2;
          lat = g3 + real (xs ! j) * g4 + real (ys ! j) * g5
      in [(lon, lat), (lon + 0.01, lat), (lon + 0.01, lat - 0.01), (lon, lat - 0.01), (lon, lat)])"
  by (simp add: row_at_def hotspot_row_def ring_def Let_def)

text \<open>What the exporter adds to the table: nothing, or the rows of the hotspots up to the cap.\<close>

lemma export_rows_written:
  assumes "export_to_cloud db_url pg c idx gt d db = (r, db', out)"
  shows "r = Returned () \<and>
         (rows_written db db' = [] \<or>
          rows_written db db' = rows_of c idx gt d \<and>
          out = [Uploading c, UploadSuccess (min (length (fst idx)) limit) c] \<and>
          (\<forall>j < min (length (fst idx)) limit. in_range idx d j))"
proof (cases rule: export_to_cloud_cases [of db_url pg c idx gt d db])
  case skipped
  with assms show ?thesis by (simp add: rows_written_def)
next
  case (failed url e db1)
  with assms show ?thesis by (simp add: rows_written_def)
next
  case (uploaded url db1)
  with assms have "db1 = db'" "r = Returned ()"
    "out = [Uploading c, UploadSuccess (min (length (fst idx)) limit) c]" by simp_all
  with uploaded(4,6) show ?thesis by (simp add: rows_written_append)
qed

text \<open>The \<open>j\<close>-th row the exporter adds is the row of the \<open>j\<close>-th hotspot, which lies inside the field.\<close>

lemma export_row_nth:
  assumes "export_to_cloud db_url pg c idx gt d db = (r, db', out)"
    and "j < length (rows_written db db')"
  shows "rows_written db db' ! j = row_at c idx gt d j \<and> in_range idx d j"
proof -
  from export_rows_written [OF assms(1)] assms(2)
  have w: "rows_written db db' = rows_of c idx gt d"
    and i: "\<forall>j < min (length (fst idx)) limit. in_range idx d j"
    by auto
  from assms(2) w have "j < min (length (fst idx)) limit" by (simp add: length_rows_of)
  with w i show ?thesis by (simp add: rows_of_nth)
qed

subsection \<open>Runs of the scenario\<close>

lemma scenario_open_old:
  "open_layer (scenario_gdal A B) (scenario_files ! 0) = Inr (''a:'' @ layer_name, Some A)"
  by (simp add: open_layer_def scenario_gdal_def layer_name_def scenario_files_def)

lemma scenario_open_new:
  "open_layer (scenario_gdal A B) (scenario_files ! 1) = Inr (''b:'' @ layer_name, Some B)"
  by (simp add: open_layer_def scenario_gdal_def layer_name_def scenario_files_def)

lemma scenario_boundary_run:
  "analyze_change (scenario_gdal [[0, 0], [0, 20], [3, 3]] [[0, 0], [0, 26], [8, 9]]) scenario_files =
     (Returned (Some (([1, 2], [1, 1]), scenario_gt, [[0, 0], [0, 6], [5, 6]])),
      [AnalyzingChange, FoundHotspots 2])"
  by code_simp

lemma scenario_wrap_run:
  "analyze_change (scenario_gdal [[10]] [[2]]) scenario_files =
     (Returned (Some (([], []), scenario_gt, [[- 8]])), [AnalyzingChange, FoundHotspots 0])"
  by code_simp

lemma scenario_download:
  "download_real_viirs scenario_archive region_X =
     (Returned scenario_files,
      [Downloading ''X'', Querying ''2022-01-15'', Querying ''2023-01-15''])"
  by (simp add: download_real_viirs_def scenario_archive_def region_X_def dates_def emit_def
      scenario_files_def)

lemma scenario_analysis:
  "analyze_change (scenario_gdal [[0, 0], [0, 20]] [[0, 0], [0, 26]]) scenario_files =
     (Returned (Some (([1], [1]), scenario_gt, [[0, 0], [0, 6]])), [AnalyzingChange, FoundHotspots 1])"
  by code_simp

lemma scenario_export:
  "export_to_cloud (Some ''postgresql://db'') accepting ''X'' ([1], [1]) scenario_gt
     [[0, 0], [0, 6]] empty_db =
   (Returned (),
    \<lparr>analysis_grid =
       [\<lparr>cell_id = ''X_0'', mean_radiance_2024 = 6, trend_slope = 6, risk_level = ''Critical'',
         geom = ST_GeomFromText
           (POLYGON [(70.5, 29.5), (70.51, 29.5), (70.51, 29.49), (70.5, 29.49), (70.5, 29.5)])
           4326\<rparr>],
     calls = [Connect ''postgresql://db'', Cursor,
       Execute \<lparr>cell_id = ''X_0'', mean_radiance_2024 = 6, trend_slope = 6, risk_level = ''Critical'',
         geom = ST_GeomFromText
           (POLYGON [(70.5, 29.5), (70.51, 29.5), (70.51, 29.49), (70.5, 29.49), (70.5, 29.5)])
           4326\<rparr>,
       Commit, Close]\<rparr>,
    [Uploading ''X'', UploadSuccess 1 ''X''])"
  by code_simp

lemma rotated_export_run:
  "export_to_cloud (Some ''postgresql://db'') accepting ''X'' ([2], [3]) rotated_gt
     [[0, 0, 0, 0], [0, 0, 0, 0], [0, 0, 0, 7]] empty_db =
   (Returned (),
    \<lparr>analysis_grid =
       [\<lparr>cell_id = ''X_0'', mean_radiance_2024 = 7, trend_slope = 7, risk_level = ''Critical'',
         geom = ST_GeomFromText
           (POLYGON [(72, 235/8), (72 + 1/100, 235/8), (72 + 1/100, 235/8 - 1/100),
                     (72, 235/8 - 1/100), (72, 235/8)]) 4326\<rparr>],
     calls = [Connect ''postgresql://db'', Cursor,
       Execute \<lparr>cell_id = ''X_0'', mean_radiance_2024 = 7, trend_slope = 7, risk_level = ''Critical'',
         geom = ST_GeomFromText
           (POLYGON [(72, 235/8), (72 + 1/100, 235/8), (72 + 1/100, 235/8 - 1/100),
                     (72, 235/8 - 1/100), (72, 235/8)]) 4326\<rparr>,
       Commit, Close]\<rparr>,
    [Uploading ''X'', UploadSuccess 1 ''X''])"
  by code_simp

lemma rejecting_loop:
  "fst (insert_loop rejecting ''X'' ([1, 2], [1, 1]) scenario_gt [[0, 0], [0, 6], [5, 6]]
        [0..<length (fst ([1, 2 :: nat], [1, 1 :: nat]))]
        (0, [], called Cursor (called (Connect ''postgresql://db'') empty_db))) =
     Some (LibraryError ''insert'')"
  by code_simp

lemma uncommitting_loop:
  "fst (insert_loop uncommitting ''X'' ([1, 2], [1, 1]) scenario_gt [[0, 0], [0, 6], [5, 6]]
        [0..<length (fst ([1, 2 :: nat], [1, 1 :: nat]))]
        (0, [], called Cursor (called (Connect ''postgresql://db'') empty_db))) = None"
  by code_simp

lemma accepting_loop:
  "fst (insert_loop accepting ''X'' ([1, 2], [1, 1]) scenario_gt [[0, 0], [0, 6], [5, 6]]
        [0..<length (fst ([1, 2 :: nat], [1, 1 :: nat]))]
        (0, [], called Cursor (called (Connect ''postgresql://db'') empty_db))) = None"
  by code_simp

lemma sparse_download:
  "download_real_viirs sparse_archive region_X =
     (Returned [''a.h5''],
      [Downloading ''X'', Querying ''2022-01-15'', Querying ''2023-01-15'', NoData ''2023-01-15''])"
  by (simp add: download_real_viirs_def sparse_archive_def scenario_archive_def region_X_def
      dates_def emit_def)

lemma failing_download:
  "download_real_viirs failing_archive region_X =
     (Raised (LibraryError ''timeout''),
      [Downloading ''X'', Querying ''2022-01-15'', Querying ''2023-01-15''])"
  by (simp add: download_real_viirs_def failing_archive_def scenario_archive_def region_X_def
      dates_def emit_def)

subsection \<open>The identifiers\<close>

lemma digit_value_digit_char: "d < 10 \<Longrightarrow> digit_value (digit_char d) = d"
  by (simp add: digit_value_def digit_char_def)

lemma nat_of_str_snoc: "nat_of_str (s @ [ch]) = 10 * nat_of_str s + digit_value ch"
  by (simp add: nat_of_str_def)

lemma nat_of_str_str_nat: "nat_of_str (str_nat n) = n"
proof (induction n rule: str_nat.induct)
  case (1 n)
  show ?case
  proof (cases "n < 10")
    case True
    then show ?thesis
      by (simp add: str_nat.simps [of n] nat_of_str_def digit_value_digit_char)
  next
    case False
    with 1 have "nat_of_str (str_nat (n div 10)) = n div 10" by simp
    with False show ?thesis
      by (simp add: str_nat.simps [of n] nat_of_str_snoc digit_value_digit_char)
  qed
qed

lemma str_nat_inj: "str_nat i = str_nat j \<Longrightarrow> i = j"
  by (metis nat_of_str_str_nat)

lemma digit_char_values:
  "digit_char 0 = CHR ''0''" "digit_char 1 = CHR ''1''" "digit_char 2 = CHR ''2''"
  "digit_char 3 = CHR ''3''" "digit_char 4 = CHR ''4''" "digit_char 5 = CHR ''5''"
  "digit_char 6 = CHR ''6''" "digit_char 7 = CHR ''7''" "digit_char 8 = CHR ''8''"
  "digit_char 9 = CHR ''9''"
  by code_simp+

lemma digit_char_cases:
  assumes "d < 10"
  shows "digit_char d \<in> set ''0123456789'' \<and> (0 < d \<longrightarrow> digit_char d \<noteq> CHR ''0'')"
proof -
  from assms have "d = 0 \<or> d = 1 \<or> d = 2 \<or> d = 3 \<or> d = 4 \<or> d = 5 \<or> d = 6 \<or> d = 7 \<or> d = 8 \<or> d = 9"
    by arith
  then show ?thesis by (elim disjE) (simp_all add: digit_char_values digit_char_values(2) [unfolded One_nat_def])
qed

lemma str_nat_digits:
  "str_nat n \<noteq> [] \<and> list_all (\<lambda>ch. ch \<in> set ''0123456789'') (str_nat n) \<and>
   (0 < n \<longrightarrow> hd (str_nat n) \<noteq> CHR ''0'')"
proof (induction n rule: str_nat.induct)
  case (1 n)
  show ?case
  proof (cases "n < 10")
    case True
    with digit_char_cases [of n] show ?thesis
      by (simp add: str_nat.simps [of n])
  next
    case False
    with 1 have ih: "str_nat (n div 10) \<noteq> []"
      "list_all (\<lambda>ch. ch \<in> set ''0123456789'') (str_nat (n div 10))"
      "0 < n div 10 \<longrightarrow> hd (str_nat (n div 10)) \<noteq> CHR ''0''"
      by simp_all
    from False have p: "0 < n div 10" by simp
    have m: "n mod 10 < 10" by simp
    from ih p digit_char_cases [OF m] False show ?thesis
      by (simp add: str_nat.simps [of n])
  qed
qed

lemma is_decimal_str_nat: "is_decimal (str_nat n)"
proof (cases "n = 0")
  case True
  then show ?thesis
    by (simp add: is_decimal_def str_nat.simps [of 0] digit_char_values)
next
  case False
  with str_nat_digits [of n] show ?thesis by (simp add: is_decimal_def)
qed

lemma str_nat_samples:
  "map str_nat [0, 1, 9, 10, 11, 99, 100, 499] =
     [''0'', ''1'', ''9'', ''10'', ''11'', ''99'', ''100'', ''499'']"
  by code_simp

lemma cell_id_rows_of:
  "map cell_id (rows_of c idx gt d) = map (\<lambda>j. c @ ''_'' @ str_nat j) [0..<length (rows_of c idx gt d)]"
  by (cases idx) (simp add: rows_of_def row_at_fields)

lemma distinct_cell_ids: "distinct (map (\<lambda>j. c @ ''_'' @ str_nat j) [0..<k])"
  by (simp add: distinct_map inj_on_def str_nat_inj)

lemma export_cell_ids:
  assumes "export_to_cloud db_url pg c idx gt d db = (r, db', out)"
  shows "map cell_id (rows_written db db') =
           map (\<lambda>j. c @ ''_'' @ str_nat j) [0..<length (rows_written db db')]"
proof -
  from export_rows_written [OF assms]
  have "rows_written db db' = [] \<or> rows_written db db' = rows_of c idx gt d" by blast
  then show ?thesis
  proof
    assume "rows_written db db' = []"
    then show ?thesis by simp
  next
    assume "rows_written db db' = rows_of c idx gt d"
    then show ?thesis by (simp only: cell_id_rows_of)
  qed
qed

lemma dozen_ids:
  "map cell_id (rows_written empty_db (fst (snd dozen_run))) =
     [''X_0'', ''X_1'', ''X_2'', ''X_3'', ''X_4'', ''X_5'', ''X_6'', ''X_7'', ''X_8'', ''X_9'',
      ''X_10'', ''X_11'']"
  by code_simp

section \<open>The claims\<close>

subsection \<open>The change analyzer\<close>

text \<open>
  Claim C1. When the two files decode to bands \<open>A\<close> (older) and \<open>B\<close> (newer) of one
  shape, the analyzer returns index arrays whose positions are exactly the cells where
  the newer value minus the older value, both taken as reals, is greater than 5; a cell
  whose difference is exactly 5 is not among them.
\<close>

theorem analyze_change_hotspots:
  assumes "2 \<le> length files"
    and "open_layer g (files ! 0) = Inr (sub_old, Some A)"
    and "open_layer g (files ! 1) = Inr (sub_new, Some B)"
    and "ndarray2d A" "ndarray2d B" "shape A = shape B"
  shows "\<exists>ys xs gt diff out.
           analyze_change g files = (Returned (Some ((ys, xs), gt, diff)), out) \<and>
           length ys = length xs \<and>
           set (zip ys xs) =
             {(r, c). r < length B \<and> c < length (B ! r) \<and>
                      real (unat (B ! r ! c)) - real (unat (A ! r ! c)) > 5} \<and>
           (\<forall>r c. real (unat (B ! r ! c)) - real (unat (A ! r ! c)) = 5 \<longrightarrow>
                  (r, c) \<notin> set (zip ys xs))"
proof -
  let ?m = "map (map (\<lambda>v. v > 5)) (diff_of B A)"
  from same_shape_rows [OF assms(5,4)] assms(6)
  have r: "length B = length A" "\<forall>i<length B. length (B ! i) = length (A ! i)" by simp_all
  have a: "analyze_change g files =
      (Returned (Some (np_where ?m, GetGeoTransform (the (g sub_new)), diff_of B A)),
       [AnalyzingChange, FoundHotspots (length (true_positions ?m))])"
    using assms(1) analyze_change_try_ok [OF assms(2-6)] by (simp add: analyze_change_def)
  have s: "set (true_positions ?m) =
      {(r, c). r < length B \<and> c < length (B ! r) \<and>
               real (unat (B ! r ! c)) - real (unat (A ! r ! c)) > 5}"
    by (auto simp: set_true_positions diff_of_nth [OF r])
  have z: "zip (map fst (true_positions ?m)) (map snd (true_positions ?m)) = true_positions ?m"
    by (simp add: zip_map_fst_snd)
  show ?thesis
    apply (rule exI [of _ "map fst (true_positions ?m)"])
    apply (rule exI [of _ "map snd (true_positions ?m)"])
    apply (rule exI [of _ "GetGeoTransform (the (g sub_new))"])
    apply (rule exI [of _ "diff_of B A"])
    apply (rule exI [of _ "[AnalyzingChange, FoundHotspots (length (true_positions ?m))]"])
    using a by (simp add: np_where_def z s)
qed

theorem analyze_change_hotspots_witness:
  "2 \<le> length scenario_files \<and>
   ndarray2d [[0, 0], [0, 20], [3, 3 :: u16]] \<and> ndarray2d [[0, 0], [0, 26], [8, 9 :: u16]] \<and>
   shape [[0, 0], [0, 20], [3, 3 :: u16]] = shape [[0, 0], [0, 26], [8, 9 :: u16]] \<and>
   fst (analyze_change (scenario_gdal [[0, 0], [0, 20], [3, 3]] [[0, 0], [0, 26], [8, 9]]) scenario_files) =
     Returned (Some (([1, 2], [1, 1]), scenario_gt, [[0, 0], [0, 6], [5, 6]])) \<and>
   {(r, c). r < length [[0, 0], [0, 26], [8, 9 :: u16]] \<and> c < length ([[0, 0], [0, 26], [8, 9 :: u16]] ! r) \<and>
            real (unat ([[0, 0], [0, 26], [8, 9 :: u16]] ! r ! c)) -
            real (unat ([[0, 0], [0, 20], [3, 3 :: u16]] ! r ! c)) > 5} = {(1, 1), (2, 1)} \<and>
   (2, 0) \<notin> set (zip [1, 2 :: nat] [1, 1 :: nat])"
proof -
  let ?A = "[[0, 0], [0, 20], [3, 3 :: u16]]" and ?B = "[[0, 0], [0, 26], [8, 9 :: u16]]"
  have h1: "2 \<le> length scenario_files" by (simp add: scenario_files_def)
  have h4: "ndarray2d ?A" "ndarray2d ?B" "shape ?A = shape ?B"
    by (simp_all add: ndarray2d_def shape_def)
  from analyze_change_hotspots [OF h1 scenario_open_old scenario_open_new h4]
  obtain ys xs gt diff out where
    a: "analyze_change (scenario_gdal ?A ?B) scenario_files = (Returned (Some ((ys, xs), gt, diff)), out)"
    and s: "set (zip ys xs) = {(r, c). r < length ?B \<and> c < length (?B ! r) \<and>
                real (unat (?B ! r ! c)) - real (unat (?A ! r ! c)) > 5}"
    by blast
  from a scenario_boundary_run have "ys = [1, 2]" "xs = [1, 1]" by simp_all
  with s have "{(r, c). r < length ?B \<and> c < length (?B ! r) \<and>
                real (unat (?B ! r ! c)) - real (unat (?A ! r ! c)) > 5} = {(1, 1), (2, 1)}"
    by auto
  with h1 h4 scenario_boundary_run show ?thesis by simp
qed

text \<open>
  Claim C2. The difference field is signed and real-valued: for bands of one shape each
  cell is the newer value minus the older value, computed on the promoted values, so it
  is negative where the newer value is smaller and lies between -65535 and 65535; with
  older value 10 and newer value 2 the cell is -8.
\<close>

theorem analyze_change_signed_difference:
  assumes "2 \<le> length files"
    and "open_layer g (files ! 0) = Inr (sub_old, Some A)"
    and "open_layer g (files ! 1) = Inr (sub_new, Some B)"
    and "ndarray2d A" "ndarray2d B" "shape A = shape B"
    and "r < length B" "c < length (B ! r)"
  shows "\<exists>idx gt diff out.
           analyze_change g files = (Returned (Some (idx, gt, diff)), out) \<and>
           diff ! r ! c = real_of_int (int (unat (B ! r ! c)) - int (unat (A ! r ! c))) \<and>
           (B ! r ! c < A ! r ! c \<longrightarrow> diff ! r ! c < 0) \<and>
           - 65535 \<le> diff ! r ! c \<and> diff ! r ! c \<le> 65535 \<and>
           (A ! r ! c = 10 \<and> B ! r ! c = 2 \<longrightarrow> diff ! r ! c = - 8)"
proof -
  let ?m = "map (map (\<lambda>v. v > 5)) (diff_of B A)"
  from same_shape_rows [OF assms(5,4)] assms(6)
  have s: "length B = length A" "\<forall>i<length B. length (B ! i) = length (A ! i)" by simp_all
  have a: "analyze_change g files =
      (Returned (Some (np_where ?m, GetGeoTransform (the (g sub_new)), diff_of B A)),
       [AnalyzingChange, FoundHotspots (length (true_positions ?m))])"
    using assms(1) analyze_change_try_ok [OF assms(2-6)] by (simp add: analyze_change_def)
  have d: "diff_of B A ! r ! c = real (unat (B ! r ! c)) - real (unat (A ! r ! c))"
    using diff_of_nth(3) [OF s assms(7,8)] .
  have b: "unat (B ! r ! c) < 65536" "unat (A ! r ! c) < 65536"
    using unsigned_less [of "B ! r ! c", where ?'a = nat] unsigned_less [of "A ! r ! c", where ?'a = nat]
    by simp_all
  have i: "diff_of B A ! r ! c = real_of_int (int (unat (B ! r ! c)) - int (unat (A ! r ! c)))"
    by (simp add: d)
  have n: "B ! r ! c < A ! r ! c \<longrightarrow> diff_of B A ! r ! c < 0"
  proof
    assume "B ! r ! c < A ! r ! c"
    then have "unat (B ! r ! c) < unat (A ! r ! c)" by (simp add: word_less_nat_alt)
    then have "real (unat (B ! r ! c)) < real (unat (A ! r ! c))" by (simp only: of_nat_less_iff)
    with d show "diff_of B A ! r ! c < 0" by linarith
  qed
  have e: "A ! r ! c = 10 \<and> B ! r ! c = 2 \<longrightarrow> diff_of B A ! r ! c = - 8"
    by (simp add: d)
  from b have "- 65535 \<le> int (unat (B ! r ! c)) - int (unat (A ! r ! c))"
    "int (unat (B ! r ! c)) - int (unat (A ! r ! c)) \<le> 65535"
    by linarith+
  then have "real_of_int (- 65535) \<le> real_of_int (int (unat (B ! r ! c)) - int (unat (A ! r ! c)))"
    "real_of_int (int (unat (B ! r ! c)) - int (unat (A ! r ! c))) \<le> real_of_int 65535"
    by (simp_all only: of_int_le_iff)
  then have l: "- 65535 \<le> diff_of B A ! r ! c" "diff_of B A ! r ! c \<le> 65535"
    unfolding i by simp_all
  show ?thesis
    apply (rule exI [of _ "np_where ?m"])
    apply (rule exI [of _ "GetGeoTransform (the (g sub_new))"])
    apply (rule exI [of _ "diff_of B A"])
    apply (rule exI [of _ "[AnalyzingChange, FoundHotspots (length (true_positions ?m))]"])
    using a i n e l by simp
qed

theorem analyze_change_signed_difference_witness:
  "2 \<le> length scenario_files \<and> ndarray2d [[10 :: u16]] \<and> ndarray2d [[2 :: u16]] \<and>
   shape [[10 :: u16]] = shape [[2 :: u16]] \<and>
   (0 :: nat) < length [[2 :: u16]] \<and> (0 :: nat) < length ([[2 :: u16]] ! 0) \<and>
   [[2 :: u16]] ! 0 ! 0 < [[10 :: u16]] ! 0 ! 0 \<and>
   fst (analyze_change (scenario_gdal [[10]] [[2]]) scenario_files) =
     Returned (Some (([], []), scenario_gt, [[- 8]])) \<and>
   [[- 8 :: real]] ! 0 ! 0 = real_of_int (int (unat ([[2 :: u16]] ! 0 ! 0)) - int (unat ([[10 :: u16]] ! 0 ! 0))) \<and>
   [[- 8 :: real]] ! 0 ! 0 < 0 \<and>
   unat ((2 :: u16) - 10) = 65528"
proof -
  let ?A = "[[10 :: u16]]" and ?B = "[[2 :: u16]]"
  have h1: "2 \<le> length scenario_files" by (simp add: scenario_files_def)
  have h4: "ndarray2d ?A" "ndarray2d ?B" "shape ?A = shape ?B"
    by (simp_all add: ndarray2d_def shape_def)
  have h7: "(0 :: nat) < length ?B" "(0 :: nat) < length (?B ! 0)" by simp_all
  from analyze_change_signed_difference [OF h1 scenario_open_old scenario_open_new h4 h7]
  obtain idx gt diff out where
    a: "analyze_change (scenario_gdal ?A ?B) scenario_files = (Returned (Some (idx, gt, diff)), out)"
    and d: "diff ! 0 ! 0 = real_of_int (int (unat (?B ! 0 ! 0)) - int (unat (?A ! 0 ! 0)))"
    and n: "?B ! 0 ! 0 < ?A ! 0 ! 0 \<longrightarrow> diff ! 0 ! 0 < 0"
    by blast
  from a scenario_wrap_run have "diff = [[- 8]]" by simp
  with d n h1 h4 scenario_wrap_run show ?thesis by simp
qed

subsection \<open>The hotspot exporter\<close>

text \<open>
  Claim C3. Whatever the inputs, the exporter adds at most 500 rows to the table. What
  it adds is nothing or, when the upload succeeds, the rows of the first min(n, 500)
  hotspots of the index arrays, the \<open>j\<close>-th row built from the \<open>j\<close>-th hotspot: the cap
  cuts the sequence off and does not look at the values. The upload succeeds when the
  driver raises nothing and the hotspots lie inside the difference field. The index
  arrays the analyzer returns are in row-major scan order.
\<close>

theorem export_cap:
  assumes "export_to_cloud db_url pg city_name (ys, xs) gt diff_data db = (r, db', out)"
  shows "length (rows_written db db') \<le> 500 \<and>
    (rows_written db db' = [] \<or>
     rows_written db db' =
       map (\<lambda>j. hotspot_row city_name gt diff_data j (ys ! j) (xs ! j)) [0..<min (length ys) 500]) \<and>
    (UploadSuccess (min (length ys) 500) city_name \<in> set out \<longrightarrow>
     rows_written db db' =
       map (\<lambda>j. hotspot_row city_name gt diff_data j (ys ! j) (xs ! j)) [0..<min (length ys) 500]) \<and>
    (configured db_url = Some url \<and> connect pg url = None \<and> commit pg = None \<and>
     (\<forall>j < min (length ys) 500.
        in_range (ys, xs) diff_data j \<and>
        execute pg (hotspot_row city_name gt diff_data j (ys ! j) (xs ! j)) = None) \<longrightarrow>
     UploadSuccess (min (length ys) 500) city_name \<in> set out) \<and>
    (analyze_change g files = (Returned (Some ((ys, xs), gt, diff_data)), out') \<longrightarrow>
     sorted_wrt scan_before (zip ys xs) \<and> length xs = length ys)"
proof -
  let ?rows = "map (\<lambda>j. hotspot_row city_name gt diff_data j (ys ! j) (xs ! j)) [0..<min (length ys) 500]"
  have ro: "rows_of city_name (ys, xs) gt diff_data = ?rows"
    by (simp add: rows_of_def row_at_def limit_def)
  have ab: "(rows_written db db' = [] \<or> rows_written db db' = ?rows) \<and>
     (UploadSuccess (min (length ys) 500) city_name \<in> set out \<longrightarrow> rows_written db db' = ?rows)"
  proof (cases rule: export_to_cloud_cases [of db_url pg city_name "(ys, xs)" gt diff_data db])
    case skipped
    with assms show ?thesis by (auto simp: rows_written_def)
  next
    case (failed url e db1)
    with assms show ?thesis by (auto simp: rows_written_def)
  next
    case (uploaded url db1)
    with assms have "analysis_grid db' = analysis_grid db @ ?rows" by (simp add: ro)
    then have "rows_written db db' = ?rows" by (rule rows_written_append)
    then show ?thesis by simp
  qed
  then have a: "rows_written db db' = [] \<or> rows_written db db' = ?rows"
    and b: "UploadSuccess (min (length ys) 500) city_name \<in> set out \<longrightarrow> rows_written db db' = ?rows"
    by blast+
  from a have l: "length (rows_written db db') \<le> 500" by auto
  have c: "configured db_url = Some url \<and> connect pg url = None \<and> commit pg = None \<and>
     (\<forall>j < min (length ys) 500.
        in_range (ys, xs) diff_data j \<and>
        execute pg (hotspot_row city_name gt diff_data j (ys ! j) (xs ! j)) = None) \<longrightarrow>
     UploadSuccess (min (length ys) 500) city_name \<in> set out"
  proof
    assume h: "configured db_url = Some url \<and> connect pg url = None \<and> commit pg = None \<and>
     (\<forall>j < min (length ys) 500.
        in_range (ys, xs) diff_data j \<and>
        execute pg (hotspot_row city_name gt diff_data j (ys ! j) (xs ! j)) = None)"
    then have "fst (export_try pg url city_name (ys, xs) gt diff_data db) = None"
      by (intro export_try_ok) (simp_all add: row_at_def limit_def)
    then obtain db1 o1 where t: "export_try pg url city_name (ys, xs) gt diff_data db = (None, db1, o1)"
      by (metis fst_conv prod_cases3)
    from export_try_None [OF t] have "o1 = [UploadSuccess (min (length ys) 500) city_name]"
      by (simp add: limit_def)
    with assms h t show "UploadSuccess (min (length ys) 500) city_name \<in> set out"
      by (auto simp: export_to_cloud_def)
  qed
  have d: "analyze_change g files = (Returned (Some ((ys, xs), gt, diff_data)), out') \<longrightarrow>
     sorted_wrt scan_before (zip ys xs) \<and> length xs = length ys"
    using analyze_change_Some np_where_scan_order by blast
  from l a b c d show ?thesis by blast
qed

theorem export_cap_witness:
  "length (rows_written empty_db (fst (snd (export_to_cloud (Some ''postgresql://db'') accepting ''X''
      (replicate 501 0, [0..<501]) scenario_gt [replicate 500 6 @ [100]] empty_db)))) = 500 \<and>
   map mean_radiance_2024 (rows_written empty_db (fst (snd (export_to_cloud (Some ''postgresql://db'')
      accepting ''X'' (replicate 501 0, [0..<501]) scenario_gt [replicate 500 6 @ [100]] empty_db)))) =
     replicate 500 6 \<and>
   analyze_change (scenario_gdal [[0, 0], [0, 20], [3, 3]] [[0, 0], [0, 26], [8, 9]]) scenario_files =
     (Returned (Some (([1, 2], [1, 1]), scenario_gt, [[0, 0], [0, 6], [5, 6]])),
      [AnalyzingChange, FoundHotspots 2]) \<and>
   sorted_wrt scan_before (zip [1, 2 :: nat] [1, 1 :: nat])"
proof -
  let ?ys = "replicate 501 (0 :: nat)" and ?xs = "[0..<501]"
  let ?d = "[replicate 500 (6 :: real) @ [100]]"
  let ?url = "''postgresql://db''"
  obtain r db' out where
    e: "export_to_cloud (Some ?url) accepting ''X'' (?ys, ?xs) scenario_gt ?d empty_db = (r, db', out)"
    by (metis prod_cases3)
  note t = export_cap [OF e, of ?url]
  have r: "\<forall>j < min (length ?ys) 500. in_range (?ys, ?xs) ?d j \<and>
      execute accepting (hotspot_row ''X'' scenario_gt ?d j (?ys ! j) (?xs ! j)) = None"
    by (simp add: in_range_def accepting_def del: upt_Suc replicate_Suc)
  have c: "configured (Some ?url) = Some ?url" "connect accepting ?url = None" "commit accepting = None"
    by (simp_all add: configured_def accepting_def)
  from t c r have w: "rows_written empty_db db' =
      map (\<lambda>j. hotspot_row ''X'' scenario_gt ?d j (?ys ! j) (?xs ! j)) [0..<min (length ?ys) 500]"
    by blast
  have m: "map mean_radiance_2024 (rows_written empty_db db') = replicate 500 6"
    unfolding w
    by (rule nth_equalityI)
       (simp_all add: hotspot_row_def Let_def scenario_gt_def nth_append del: upt_Suc replicate_Suc)
  from w have l: "length (rows_written empty_db db') = 500" by simp
  obtain r2 db2 out2 where
    e2: "export_to_cloud (Some ?url) accepting ''X'' ([1, 2], [1, 1]) scenario_gt
           [[0, 0], [0, 6], [5, 6]] empty_db = (r2, db2, out2)"
    by (metis prod_cases3)
  from export_cap [OF e2, of _ "scenario_gdal [[0, 0], [0, 20], [3, 3]] [[0, 0], [0, 26], [8, 9]]"
      scenario_files "[AnalyzingChange, FoundHotspots 2]"] scenario_boundary_run
  have s: "sorted_wrt scan_before (zip [1, 2 :: nat] [1, 1 :: nat])" by blast
  from e l m s scenario_boundary_run show ?thesis by simp
qed

text \<open>
  Claim C4. The polygon of the \<open>j\<close>-th row written starts at the point that the affine
  transform \<open>(a, b, c, d, e, f)\<close> gives for the \<open>j\<close>-th hotspot \<open>(row, col)\<close>:
  \<open>lon = a + col * b + row * c\<close> and \<open>lat = d + col * e + row * f\<close>; for row 2 and
  column 3 that is \<open>(a + 3 * b + 2 * c, d + 3 * e + 2 * f)\<close>.
\<close>

theorem export_affine:
  assumes "export_to_cloud db_url pg city_name (ys, xs) (a, b, c, d, e, f) diff_data db = (r, db', out)"
    and "j < length (rows_written db db')"
  shows "hd (ring (rows_written db db' ! j)) =
           (a + real (xs ! j) * b + real (ys ! j) * c, d + real (xs ! j) * e + real (ys ! j) * f) \<and>
         (ys ! j = 2 \<and> xs ! j = 3 \<longrightarrow>
            hd (ring (rows_written db db' ! j)) = (a + 3 * b + 2 * c, d + 3 * e + 2 * f))"
  using export_row_nth [OF assms] by (simp add: row_at_ring Let_def)

theorem export_affine_witness:
  "rows_written empty_db (fst (snd (export_to_cloud (Some ''postgresql://db'') accepting ''X''
      ([2], [3]) (70, 1/2, 1/4, 30, 1/8, - 1/2) [[0, 0, 0, 0], [0, 0, 0, 0], [0, 0, 0, 7]] empty_db))) \<noteq> [] \<and>
   hd (ring (rows_written empty_db (fst (snd (export_to_cloud (Some ''postgresql://db'') accepting ''X''
      ([2], [3]) (70, 1/2, 1/4, 30, 1/8, - 1/2) [[0, 0, 0, 0], [0, 0, 0, 0], [0, 0, 0, 7]] empty_db))) ! 0)) =
     (70 + 3 * (1/2) + 2 * (1/4), 30 + 3 * (1/8) + 2 * (- 1/2))"
proof -
  let ?e = "export_to_cloud (Some ''postgresql://db'') accepting ''X''
      ([2], [3]) (70, 1/2, 1/4, 30, 1/8, - 1/2) [[0, 0, 0, 0], [0, 0, 0, 0], [0, 0, 0, 7]] empty_db"
  have p: "?e = (fst ?e, fst (snd ?e), snd (snd ?e))" by simp
  have n: "0 < length (rows_written empty_db (fst (snd ?e)))"
    using rotated_export_run by (simp add: rotated_gt_def rows_written_def empty_db_def)
  from export_affine [OF p n] n show ?thesis by simp
qed

text \<open>
  Claim C10. The polygon of the \<open>j\<close>-th row written is a ring of five points that
  starts and ends at the point \<open>(lon, lat)\<close> computed for the \<open>j\<close>-th hotspot. That point
  is the north-west corner: every point of the ring has its longitude between \<open>lon\<close> and
  \<open>lon + 0.01\<close> and its latitude between \<open>lat - 0.01\<close> and \<open>lat\<close>, and the opposite
  corner \<open>(lon + 0.01, lat - 0.01)\<close> is on the ring.
\<close>

theorem export_polygon_ring:
  assumes "export_to_cloud db_url pg city_name (ys, xs) (a, b, c, d, e, f) diff_data db = (r, db', out)"
    and "j < length (rows_written db db')"
    and "lon = a + real (xs ! j) * b + real (ys ! j) * c"
    and "lat = d + real (xs ! j) * e + real (ys ! j) * f"
  shows "ring (rows_written db db' ! j) =
           [(lon, lat), (lon + 0.01, lat), (lon + 0.01, lat - 0.01), (lon, lat - 0.01), (lon, lat)] \<and>
         length (ring (rows_written db db' ! j)) = 5 \<and>
         hd (ring (rows_written db db' ! j)) = (lon, lat) \<and>
         last (ring (rows_written db db' ! j)) = (lon, lat) \<and>
         (\<forall>(x, y) \<in> set (ring (rows_written db db' ! j)).
            lon \<le> x \<and> x \<le> lon + 0.01 \<and> lat - 0.01 \<le> y \<and> y \<le> lat) \<and>
         (lon + 0.01, lat - 0.01) \<in> set (ring (rows_written db db' ! j))"
  using export_row_nth [OF assms(1,2)] assms(3,4) by (simp add: row_at_ring Let_def)

theorem export_polygon_ring_witness:
  "rows_written empty_db (fst (snd (export_to_cloud (Some ''postgresql://db'') accepting ''X''
      ([2], [3]) (70, 1/2, 1/4, 30, 1/8, - 1/2) [[0, 0, 0, 0], [0, 0, 0, 0], [0, 0, 0, 7]] empty_db))) \<noteq> [] \<and>
   ring (rows_written empty_db (fst (snd (export_to_cloud (Some ''postgresql://db'') accepting ''X''
      ([2], [3]) (70, 1/2, 1/4, 30, 1/8, - 1/2) [[0, 0, 0, 0], [0, 0, 0, 0], [0, 0, 0, 7]] empty_db))) ! 0) =
     [(72, 29.375), (72.01, 29.375), (72.01, 29.365), (72, 29.365), (72, 29.375)]"
proof -
  let ?e = "export_to_cloud (Some ''postgresql://db'') accepting ''X''
      ([2], [3]) (70, 1/2, 1/4, 30, 1/8, - 1/2) [[0, 0, 0, 0], [0, 0, 0, 0], [0, 0, 0, 7]] empty_db"
  have p: "?e = (fst ?e, fst (snd ?e), snd (snd ?e))" by simp
  have n: "0 < length (rows_written empty_db (fst (snd ?e)))"
    using rotated_export_run by (simp add: rotated_gt_def rows_written_def empty_db_def)
  from export_polygon_ring [OF p n refl refl] n show ?thesis by simp
qed

text \<open>
  Claim C7. The rows written carry sequential identifiers: the \<open>j\<close>-th row has the
  identifier \<open>city_j\<close>, where \<open>j\<close> is printed as a canonical decimal numeral that reads
  back as \<open>j\<close> (so the rows are \<open>city_0\<close>, \<open>city_1\<close>, ..., \<open>city_10\<close>, ... in order),
  and no two rows of an export share an identifier. Each row has the delta of its
  hotspot in both numeric columns, the label \<open>Critical\<close> and a polygon with SRID 4326.
  In the scenario of the specification (older \<open>[[0,0],[0,20]]\<close>, newer
  \<open>[[0,0],[0,26]]\<close>, region X) the analyzer finds the one hotspot at row 1, column 1,
  and the step for the region inserts exactly one row, with 6 in both numeric columns
  and the label \<open>Critical\<close>.
\<close>

theorem export_row_contents:
  "(export_to_cloud db_url pg city_name (ys, xs) gt diff_data db = (r, db', out) \<and>
    j < length (rows_written db db') \<longrightarrow>
      cell_id (rows_written db db' ! j) = city_name @ ''_'' @ str_nat j \<and>
      is_decimal (str_nat j) \<and> nat_of_str (str_nat j) = j \<and>
      nat_of_str (drop (length city_name + 1) (cell_id (rows_written db db' ! j))) = j \<and>
      (\<forall>k < length (rows_written db db').
         k \<noteq> j \<longrightarrow> cell_id (rows_written db db' ! k) \<noteq> cell_id (rows_written db db' ! j)) \<and>
      ys ! j < length diff_data \<and> xs ! j < length (diff_data ! (ys ! j)) \<and>
      mean_radiance_2024 (rows_written db db' ! j) = diff_data ! (ys ! j) ! (xs ! j) \<and>
      trend_slope (rows_written db db' ! j) = diff_data ! (ys ! j) ! (xs ! j) \<and>
      risk_level (rows_written db db' ! j) = ''Critical'' \<and>
      (\<exists>ps. geom (rows_written db db' ! j) = ST_GeomFromText (POLYGON ps) 4326)) \<and>
   (export_to_cloud db_url pg city_name (ys, xs) gt diff_data db = (r, db', out) \<longrightarrow>
      map cell_id (rows_written db db') =
        map (\<lambda>j. city_name @ ''_'' @ str_nat j) [0..<length (rows_written db db')] \<and>
      distinct (map cell_id (rows_written db db'))) \<and>
   map str_nat [0, 1, 9, 10, 11, 99, 100, 499] =
     [''0'', ''1'', ''9'', ''10'', ''11'', ''99'', ''100'', ''499''] \<and>
   fst (analyze_change (scenario_gdal [[0, 0], [0, 20]] [[0, 0], [0, 26]]) scenario_files) =
     Returned (Some (([1], [1]), scenario_gt, [[0, 0], [0, 6]])) \<and>
   process_city (scenario_world [[0, 0], [0, 20]] [[0, 0], [0, 26]]) region_X empty_db =
     (Returned (),
      \<lparr>analysis_grid =
         [\<lparr>cell_id = ''X_0'', mean_radiance_2024 = 6, trend_slope = 6, risk_level = ''Critical'',
           geom = ST_GeomFromText
             (POLYGON [(70.5, 29.5), (70.51, 29.5), (70.51, 29.49), (70.5, 29.49), (70.5, 29.5)])
             4326\<rparr>],
       calls = [Connect ''postgresql://db'', Cursor,
         Execute \<lparr>cell_id = ''X_0'', mean_radiance_2024 = 6, trend_slope = 6, risk_level = ''Critical'',
           geom = ST_GeomFromText
             (POLYGON [(70.5, 29.5), (70.51, 29.5), (70.51, 29.49), (70.5, 29.49), (70.5, 29.5)])
             4326\<rparr>,
         Commit, Close]\<rparr>,
      [Downloading ''X'', Querying ''2022-01-15'', Querying ''2023-01-15'',
       AnalyzingChange, FoundHotspots 1, Uploading ''X'', UploadSuccess 1 ''X''])"
proof -
  have i: "export_to_cloud db_url pg city_name (ys, xs) gt diff_data db = (r, db', out) \<longrightarrow>
      map cell_id (rows_written db db') =
        map (\<lambda>j. city_name @ ''_'' @ str_nat j) [0..<length (rows_written db db')] \<and>
      distinct (map cell_id (rows_written db db'))"
  proof
    assume h: "export_to_cloud db_url pg city_name (ys, xs) gt diff_data db = (r, db', out)"
    note e = export_cell_ids [OF h]
    have "distinct (map cell_id (rows_written db db'))"
      unfolding e by (rule distinct_cell_ids)
    with e show "map cell_id (rows_written db db') =
        map (\<lambda>j. city_name @ ''_'' @ str_nat j) [0..<length (rows_written db db')] \<and>
      distinct (map cell_id (rows_written db db'))" by simp
  qed
  have g: "export_to_cloud db_url pg city_name (ys, xs) gt diff_data db = (r, db', out) \<and>
    j < length (rows_written db db') \<longrightarrow>
      cell_id (rows_written db db' ! j) = city_name @ ''_'' @ str_nat j \<and>
      is_decimal (str_nat j) \<and> nat_of_str (str_nat j) = j \<and>
      nat_of_str (drop (length city_name + 1) (cell_id (rows_written db db' ! j))) = j \<and>
      (\<forall>k < length (rows_written db db').
         k \<noteq> j \<longrightarrow> cell_id (rows_written db db' ! k) \<noteq> cell_id (rows_written db db' ! j)) \<and>
      ys ! j < length diff_data \<and> xs ! j < length (diff_data ! (ys ! j)) \<and>
      mean_radiance_2024 (rows_written db db' ! j) = diff_data ! (ys ! j) ! (xs ! j) \<and>
      trend_slope (rows_written db db' ! j) = diff_data ! (ys ! j) ! (xs ! j) \<and>
      risk_level (rows_written db db' ! j) = ''Critical'' \<and>
      (\<exists>ps. geom (rows_written db db' ! j) = ST_GeomFromText (POLYGON ps) 4326)"
  proof
    assume h: "export_to_cloud db_url pg city_name (ys, xs) gt diff_data db = (r, db', out) \<and>
      j < length (rows_written db db')"
    then have n: "rows_written db db' ! j = row_at city_name (ys, xs) gt diff_data j"
      and r: "in_range (ys, xs) diff_data j"
      using export_row_nth by blast+
    have c: "cell_id (rows_written db db' ! j) = city_name @ ''_'' @ str_nat j"
      unfolding n by (simp add: row_at_fields)
    then have s: "nat_of_str (drop (length city_name + 1) (cell_id (rows_written db db' ! j))) = j"
      by (simp add: nat_of_str_str_nat)
    from h i have d: "distinct (map cell_id (rows_written db db'))" by blast
    have u: "\<forall>k < length (rows_written db db').
         k \<noteq> j \<longrightarrow> cell_id (rows_written db db' ! k) \<noteq> cell_id (rows_written db db' ! j)"
    proof (intro allI impI)
      fix k assume k: "k < length (rows_written db db')" "k \<noteq> j"
      with h d have "map cell_id (rows_written db db') ! k \<noteq> map cell_id (rows_written db db') ! j"
        by (simp add: nth_eq_iff_index_eq del: nth_map)
      with k h show "cell_id (rows_written db db' ! k) \<noteq> cell_id (rows_written db db' ! j)"
        by simp
    qed
    have p: "\<exists>ps. geom (row_at city_name (ys, xs) gt diff_data j) = ST_GeomFromText (POLYGON ps) 4326"
      by (simp add: row_at_def hotspot_row_def Let_def split: prod.splits)
    have f: "ys ! j < length diff_data \<and> xs ! j < length (diff_data ! (ys ! j)) \<and>
      mean_radiance_2024 (rows_written db db' ! j) = diff_data ! (ys ! j) ! (xs ! j) \<and>
      trend_slope (rows_written db db' ! j) = diff_data ! (ys ! j) ! (xs ! j) \<and>
      risk_level (rows_written db db' ! j) = ''Critical'' \<and>
      (\<exists>ps. geom (rows_written db db' ! j) = ST_GeomFromText (POLYGON ps) 4326)"
      using r p unfolding n by (simp add: row_at_fields in_range_def)
    from c s u f is_decimal_str_nat [of j] nat_of_str_str_nat [of j]
    show "cell_id (rows_written db db' ! j) = city_name @ ''_'' @ str_nat j \<and>
      is_decimal (str_nat j) \<and> nat_of_str (str_nat j) = j \<and>
      nat_of_str (drop (length city_name + 1) (cell_id (rows_written db db' ! j))) = j \<and>
      (\<forall>k < length (rows_written db db').
         k \<noteq> j \<longrightarrow> cell_id (rows_written db db' ! k) \<noteq> cell_id (rows_written db db' ! j)) \<and>
      ys ! j < length diff_data \<and> xs ! j < length (diff_data ! (ys ! j)) \<and>
      mean_radiance_2024 (rows_written db db' ! j) = diff_data ! (ys ! j) ! (xs ! j) \<and>
      trend_slope (rows_written db db' ! j) = diff_data ! (ys ! j) ! (xs ! j) \<and>
      risk_level (rows_written db db' ! j) = ''Critical'' \<and>
      (\<exists>ps. geom (rows_written db db' ! j) = ST_GeomFromText (POLYGON ps) 4326)"
      by blast
  qed
  have p: "process_city (scenario_world [[0, 0], [0, 20]] [[0, 0], [0, 26]]) region_X empty_db =
     (Returned (), fst (snd (export_to_cloud (Some ''postgresql://db'') accepting ''X'' ([1], [1])
        scenario_gt [[0, 0], [0, 6]] empty_db)),
      [Downloading ''X'', Querying ''2022-01-15'', Querying ''2023-01-15'',
       AnalyzingChange, FoundHotspots 1, Uploading ''X'', UploadSuccess 1 ''X''])"
  proof -
    have l: "length scenario_files = 2" by (simp add: scenario_files_def)
    have x: "name region_X = ''X''" by (simp add: region_X_def)
    show ?thesis
      by (simp add: process_city_def process_city_try_def scenario_world_def scenario_download
          scenario_analysis scenario_export l x del: One_nat_def)
  qed
  have q: "fst (analyze_change (scenario_gdal [[0, 0], [0, 20]] [[0, 0], [0, 26]]) scenario_files) =
     Returned (Some (([1], [1]), scenario_gt, [[0, 0], [0, 6]]))"
    by (simp add: scenario_analysis)
  have p': "process_city (scenario_world [[0, 0], [0, 20]] [[0, 0], [0, 26]]) region_X empty_db =
     (Returned (),
      \<lparr>analysis_grid =
         [\<lparr>cell_id = ''X_0'', mean_radiance_2024 = 6, trend_slope = 6, risk_level = ''Critical'',
           geom = ST_GeomFromText
             (POLYGON [(70.5, 29.5), (70.51, 29.5), (70.51, 29.49), (70.5, 29.49), (70.5, 29.5)])
             4326\<rparr>],
       calls = [Connect ''postgresql://db'', Cursor,
         Execute \<lparr>cell_id = ''X_0'', mean_radiance_2024 = 6, trend_slope = 6, risk_level = ''Critical'',
           geom = ST_GeomFromText
             (POLYGON [(70.5, 29.5), (70.51, 29.5), (70.51, 29.49), (70.5, 29.49), (70.5, 29.5)])
             4326\<rparr>,
         Commit, Close]\<rparr>,
      [Downloading ''X'', Querying ''2022-01-15'', Querying ''2023-01-15'',
       AnalyzingChange, FoundHotspots 1, Uploading ''X'', UploadSuccess 1 ''X''])"
    unfolding p by (simp add: scenario_export del: One_nat_def)
  from g i str_nat_samples q p' show ?thesis by (intro conjI)
qed

theorem export_row_contents_witness:
  "map cell_id (rows_written empty_db (fst (snd dozen_run))) =
     [''X_0'', ''X_1'', ''X_2'', ''X_3'', ''X_4'', ''X_5'', ''X_6'', ''X_7'', ''X_8'', ''X_9'',
      ''X_10'', ''X_11''] \<and>
   distinct (map cell_id (rows_written empty_db (fst (snd dozen_run)))) \<and>
   (11 :: nat) < length (rows_written empty_db (fst (snd dozen_run))) \<and>
   cell_id (rows_written empty_db (fst (snd dozen_run)) ! 11) = ''X_11'' \<and>
   nat_of_str (drop (length ''X'' + 1) (cell_id (rows_written empty_db (fst (snd dozen_run)) ! 11))) = 11 \<and>
   cell_id (rows_written empty_db (fst (snd dozen_run)) ! 10) \<noteq>
     cell_id (rows_written empty_db (fst (snd dozen_run)) ! 11) \<and>
   mean_radiance_2024 (rows_written empty_db (fst (snd dozen_run)) ! 11) = 6 \<and>
   trend_slope (rows_written empty_db (fst (snd dozen_run)) ! 11) = 6 \<and>
   risk_level (rows_written empty_db (fst (snd dozen_run)) ! 11) = ''Critical''"
proof -
  let ?rows = "rows_written empty_db (fst (snd dozen_run))"
  have p: "export_to_cloud (Some ''postgresql://db'') accepting ''X'' (replicate 12 0, [0..<12])
       scenario_gt [replicate 12 6] empty_db = (fst dozen_run, fst (snd dozen_run), snd (snd dozen_run))"
    by (simp add: dozen_run_def)
  have "length (map cell_id ?rows) = 12" unfolding dozen_ids by simp
  then have n: "(11 :: nat) < length ?rows" "(10 :: nat) < length ?rows" by simp_all
  note t = export_row_contents [of "Some ''postgresql://db''" accepting "''X''" "replicate 12 0"
      "[0..<12]" scenario_gt "[replicate 12 6]" empty_db "fst dozen_run" "fst (snd dozen_run)"
      "snd (snd dozen_run)" 11]
  have s: "str_nat 11 = ''11''" by code_simp
  from t p n have c: "cell_id (?rows ! 11) = ''X'' @ ''_'' @ str_nat 11"
    and d: "nat_of_str (drop (length ''X'' + 1) (cell_id (?rows ! 11))) = 11"
    and u: "\<forall>k < length ?rows. k \<noteq> 11 \<longrightarrow> cell_id (?rows ! k) \<noteq> cell_id (?rows ! 11)"
    and m: "mean_radiance_2024 (?rows ! 11) = [replicate 12 6] ! (replicate 12 0 ! 11) ! ([0..<12] ! 11)"
    and f: "trend_slope (?rows ! 11) = [replicate 12 6] ! (replicate 12 0 ! 11) ! ([0..<12] ! 11)"
    and k: "risk_level (?rows ! 11) = ''Critical''"
    and i: "distinct (map cell_id ?rows)"
    by blast+
  from u n have x: "cell_id (?rows ! 10) \<noteq> cell_id (?rows ! 11)" by simp
  have v: "[replicate 12 (6 :: real)] ! (replicate 12 0 ! 11) ! ([0..<12] ! 11) = 6"
    by (simp del: upt_Suc replicate_Suc)
  from c s have c': "cell_id (?rows ! 11) = ''X_11''" by simp
  from dozen_ids i n(1) c' d x m f k v show ?thesis by (simp only: simp_thms)
qed

text \<open>
  Claim C6. With a connection string configured, the exporter always returns normally.
  When nothing raises, the calls it makes are connect, cursor, one insert per row, then
  one commit and close, and the table gains exactly the rows inserted. When the loop
  raises, no commit is called; when the commit (or the connect) raises, nothing reaches
  the table either; in each case the table is as before and the exception is printed.
\<close>

theorem export_transaction:
  assumes "configured db_url = Some url"
    and "export_to_cloud db_url pg city_name indices gt diff_data db = (r, db', out)"
    and "loop = insert_loop pg city_name indices gt diff_data [0..<length (fst indices)]
                  (0, [], called Cursor (called (Connect url) db))"
  shows "r = Returned () \<and>
    (connect pg url = None \<and> fst loop = None \<and> commit pg = None \<longrightarrow>
       calls db' = calls db @ [Connect url, Cursor] @
                   map Execute (rows_of city_name indices gt diff_data) @ [Commit, Close] \<and>
       analysis_grid db' = analysis_grid db @ rows_of city_name indices gt diff_data \<and>
       out = [Uploading city_name, UploadSuccess (min (length (fst indices)) limit) city_name]) \<and>
    (connect pg url = None \<and> fst loop = Some e \<longrightarrow>
       analysis_grid db' = analysis_grid db \<and>
       Commit \<notin> set (drop (length (calls db)) (calls db')) \<and>
       out = [Uploading city_name, UploadFailed e]) \<and>
    (connect pg url = None \<and> fst loop = None \<and> commit pg = Some e \<longrightarrow>
       analysis_grid db' = analysis_grid db \<and>
       out = [Uploading city_name, UploadFailed e]) \<and>
    (connect pg url = Some e \<longrightarrow>
       analysis_grid db' = analysis_grid db \<and>
       Commit \<notin> set (drop (length (calls db)) (calls db')) \<and>
       out = [Uploading city_name, UploadFailed e]) \<and>
    length (filter (\<lambda>x. x = Commit) (drop (length (calls db)) (calls db'))) \<le> 1"
proof -
  let ?db2 = "called Cursor (called (Connect url) db)"
  obtain lr k p db1 where l: "loop = (lr, k, p, db1)" by (metis prod_cases4)
  note x = assms(2) [unfolded export_to_cloud_def assms(1), simplified]
  have r: "r = Returned ()"
    using x by (auto split: prod.splits option.splits)
  have a: "connect pg url = None \<and> fst loop = None \<and> commit pg = None \<longrightarrow>
       calls db' = calls db @ [Connect url, Cursor] @
                   map Execute (rows_of city_name indices gt diff_data) @ [Commit, Close] \<and>
       analysis_grid db' = analysis_grid db @ rows_of city_name indices gt diff_data \<and>
       out = [Uploading city_name, UploadSuccess (min (length (fst indices)) limit) city_name]"
  proof
    assume h: "connect pg url = None \<and> fst loop = None \<and> commit pg = None"
    with assms(3) have "fst (export_try pg url city_name indices gt diff_data db) = None"
      by (simp add: export_try_raises)
    then obtain db1 o1 where t: "export_try pg url city_name indices gt diff_data db = (None, db1, o1)"
      by (metis fst_conv prod_cases3)
    from export_try_None [OF t] x t
    show "calls db' = calls db @ [Connect url, Cursor] @
                   map Execute (rows_of city_name indices gt diff_data) @ [Commit, Close] \<and>
       analysis_grid db' = analysis_grid db @ rows_of city_name indices gt diff_data \<and>
       out = [Uploading city_name, UploadSuccess (min (length (fst indices)) limit) city_name]"
      by auto
  qed
  have b: "connect pg url = None \<and> fst loop = Some e \<longrightarrow>
       analysis_grid db' = analysis_grid db \<and>
       Commit \<notin> set (drop (length (calls db)) (calls db')) \<and>
       out = [Uploading city_name, UploadFailed e]"
  proof
    assume h: "connect pg url = None \<and> fst loop = Some e"
    with l have l': "insert_loop pg city_name indices gt diff_data [0..<length (fst indices)] (0, [], ?db2) =
        (Some e, k, p, db1)"
      using assms(3) by simp
    from insert_loop_Some [OF l'] obtain cs where
      g: "analysis_grid db1 = analysis_grid db" and c: "calls db1 = calls db @ [Connect url, Cursor] @ cs"
      and n: "Commit \<notin> set cs"
      by (auto simp: called_def)
    from h l' have "export_try pg url city_name indices gt diff_data db = (Some e, db1, [])"
      by (simp add: export_try_def Let_def)
    with x have "db' = db1" "out = [Uploading city_name, UploadFailed e]" by simp_all
    with g c n show "analysis_grid db' = analysis_grid db \<and>
       Commit \<notin> set (drop (length (calls db)) (calls db')) \<and>
       out = [Uploading city_name, UploadFailed e]"
      by simp
  qed
  have c: "connect pg url = None \<and> fst loop = None \<and> commit pg = Some e \<longrightarrow>
       analysis_grid db' = analysis_grid db \<and> out = [Uploading city_name, UploadFailed e]"
  proof
    assume h: "connect pg url = None \<and> fst loop = None \<and> commit pg = Some e"
    with l have l': "insert_loop pg city_name indices gt diff_data [0..<length (fst indices)] (0, [], ?db2) =
        (None, k, p, db1)"
      using assms(3) by simp
    from insert_loop_None [OF l'] have g: "analysis_grid db1 = analysis_grid db"
      by (simp add: called_def)
    from h l' have "export_try pg url city_name indices gt diff_data db = (Some e, called Commit db1, [])"
      by (simp add: export_try_def Let_def)
    with x have "db' = called Commit db1" "out = [Uploading city_name, UploadFailed e]" by simp_all
    with g show "analysis_grid db' = analysis_grid db \<and> out = [Uploading city_name, UploadFailed e]"
      by (simp add: called_def)
  qed
  have d: "connect pg url = Some e \<longrightarrow>
       analysis_grid db' = analysis_grid db \<and>
       Commit \<notin> set (drop (length (calls db)) (calls db')) \<and>
       out = [Uploading city_name, UploadFailed e]"
  proof
    assume h: "connect pg url = Some e"
    then have "export_try pg url city_name indices gt diff_data db = (Some e, called (Connect url) db, [])"
      by (simp add: export_try_def Let_def)
    with x show "analysis_grid db' = analysis_grid db \<and>
       Commit \<notin> set (drop (length (calls db)) (calls db')) \<and>
       out = [Uploading city_name, UploadFailed e]"
      by (auto simp: called_def)
  qed
  have f: "length (filter (\<lambda>x. x = Commit) (drop (length (calls db)) (calls db'))) \<le> 1"
  proof (cases rule: export_to_cloud_cases [of db_url pg city_name indices gt diff_data db])
    case skipped
    with assms(1) show ?thesis by simp
  next
    case (failed url' e' db1)
    with assms(2) have "db' = db1" by simp
    with failed(5) show ?thesis by auto
  next
    case (uploaded url' db1)
    with assms(2) have "db' = db1" by simp
    with uploaded(5) show ?thesis by (auto simp: filter_empty_conv)
  qed
  from r a b c d f show ?thesis by blast
qed

theorem export_transaction_witness:
  "configured (Some ''postgresql://db'') = Some ''postgresql://db'' \<and>
   fst (export_to_cloud (Some ''postgresql://db'') rejecting ''X'' ([1, 2], [1, 1]) scenario_gt
          [[0, 0], [0, 6], [5, 6]] empty_db) = Returned () \<and>
   analysis_grid (fst (snd (export_to_cloud (Some ''postgresql://db'') rejecting ''X'' ([1, 2], [1, 1])
          scenario_gt [[0, 0], [0, 6], [5, 6]] empty_db))) = [] \<and>
   Commit \<notin> set (calls (fst (snd (export_to_cloud (Some ''postgresql://db'') rejecting ''X''
          ([1, 2], [1, 1]) scenario_gt [[0, 0], [0, 6], [5, 6]] empty_db)))) \<and>
   snd (snd (export_to_cloud (Some ''postgresql://db'') rejecting ''X'' ([1, 2], [1, 1]) scenario_gt
          [[0, 0], [0, 6], [5, 6]] empty_db)) = [Uploading ''X'', UploadFailed (LibraryError ''insert'')] \<and>
   analysis_grid (fst (snd (export_to_cloud (Some ''postgresql://db'') uncommitting ''X'' ([1, 2], [1, 1])
          scenario_gt [[0, 0], [0, 6], [5, 6]] empty_db))) = [] \<and>
   snd (snd (export_to_cloud (Some ''postgresql://db'') uncommitting ''X'' ([1, 2], [1, 1]) scenario_gt
          [[0, 0], [0, 6], [5, 6]] empty_db)) = [Uploading ''X'', UploadFailed (LibraryError ''commit'')] \<and>
   analysis_grid (fst (snd (export_to_cloud (Some ''postgresql://db'') accepting ''X'' ([1, 2], [1, 1])
          scenario_gt [[0, 0], [0, 6], [5, 6]] empty_db))) =
     rows_of ''X'' ([1, 2], [1, 1]) scenario_gt [[0, 0], [0, 6], [5, 6]] \<and>
   calls (fst (snd (export_to_cloud (Some ''postgresql://db'') accepting ''X'' ([1, 2], [1, 1])
          scenario_gt [[0, 0], [0, 6], [5, 6]] empty_db))) =
     [Connect ''postgresql://db'', Cursor] @
     map Execute (rows_of ''X'' ([1, 2], [1, 1]) scenario_gt [[0, 0], [0, 6], [5, 6]]) @ [Commit, Close] \<and>
   length (rows_of ''X'' ([1, 2], [1, 1]) scenario_gt [[0, 0], [0, 6], [5, 6]]) = 2"
proof -
  let ?url = "''postgresql://db''"
  let ?e = "\<lambda>pg. export_to_cloud (Some ?url) pg ''X'' ([1, 2], [1, 1]) scenario_gt
      [[0, 0], [0, 6], [5, 6]] empty_db"
  have c: "configured (Some ?url) = Some ?url" by (simp add: configured_def)
  have p: "?e pg = (fst (?e pg), fst (snd (?e pg)), snd (snd (?e pg)))" for pg by simp
  have k: "connect rejecting ?url = None" "connect uncommitting ?url = None"
    "connect accepting ?url = None" "commit accepting = None"
    "commit uncommitting = Some (LibraryError ''commit'')"
    by (simp_all add: rejecting_def uncommitting_def accepting_def)
  have z: "calls empty_db = []" "analysis_grid empty_db = []" by (simp_all add: empty_db_def)
  note t1 = export_transaction [OF c p refl, of rejecting "LibraryError ''insert''"]
  note t2 = export_transaction [OF c p refl, of uncommitting "LibraryError ''commit''"]
  note t3 = export_transaction [OF c p refl, of accepting]
  from t1 rejecting_loop k z
  have r1: "fst (?e rejecting) = Returned ()" "analysis_grid (fst (snd (?e rejecting))) = []"
    "Commit \<notin> set (calls (fst (snd (?e rejecting))))"
    "snd (snd (?e rejecting)) = [Uploading ''X'', UploadFailed (LibraryError ''insert'')]"
    by simp_all
  from t2 uncommitting_loop k z
  have r2: "analysis_grid (fst (snd (?e uncommitting))) = []"
    "snd (snd (?e uncommitting)) = [Uploading ''X'', UploadFailed (LibraryError ''commit'')]"
    by simp_all
  from t3 accepting_loop k z
  have r3: "analysis_grid (fst (snd (?e accepting))) =
      rows_of ''X'' ([1, 2], [1, 1]) scenario_gt [[0, 0], [0, 6], [5, 6]]"
    "calls (fst (snd (?e accepting))) = [Connect ?url, Cursor] @
      map Execute (rows_of ''X'' ([1, 2], [1, 1]) scenario_gt [[0, 0], [0, 6], [5, 6]]) @ [Commit, Close]"
    by simp_all
  have l: "length (rows_of ''X'' ([1, 2], [1, 1]) scenario_gt [[0, 0], [0, 6], [5, 6]]) = 2"
    by (simp add: length_rows_of limit_def)
  from c r1 r2 r3 l show ?thesis by simp
qed

text \<open>
  Claim C8. When no connection string is configured (the variable is unset, or empty),
  the exporter returns normally, leaves the database as it is, with no call to the
  driver, and prints its banner and the warning that the upload is skipped.
\<close>

theorem export_without_db_url:
  "db_url = None \<or> db_url = Some [] \<Longrightarrow>
   export_to_cloud db_url pg city_name indices gt diff_data db =
     (Returned (), db, [Uploading city_name, SkippingUpload])"
  by (auto simp: export_to_cloud_def configured_def)

theorem export_without_db_url_witness:
  "export_to_cloud None accepting ''X'' ([1], [1]) scenario_gt [[0, 0], [0, 6]] empty_db =
     (Returned (), empty_db, [Uploading ''X'', SkippingUpload]) \<and>
   calls (fst (snd (export_to_cloud None accepting ''X'' ([1], [1]) scenario_gt [[0, 0], [0, 6]] empty_db))) = []"
  using export_without_db_url [of None accepting "''X''" "([1], [1])" scenario_gt "[[0, 0], [0, 6]]" empty_db]
  by (simp add: empty_db_def)

subsection \<open>The main loop\<close>

text \<open>
  Claim C5. With fewer than two files the analyzer returns the sentinel and raises
  nothing. When the download step returns fewer than two files for a city, or raises,
  the step for that city returns normally and the database is as before: no row is
  written and no driver call is made.
\<close>

theorem insufficient_files_noop:
  "(length files < 2 \<longrightarrow> analyze_change g files = (Returned None, [AnalyzingChange])) \<and>
   (download_real_viirs (archive w) c = (Returned files, out) \<and> length files < 2 \<longrightarrow>
      process_city w c db = (Returned (), db, out @ [SkippingCity (name c)])) \<and>
   (download_real_viirs (archive w) c = (Raised e, out) \<longrightarrow>
      process_city w c db = (Returned (), db, out @ [CriticalError (name c) e]))"
  by (simp add: analyze_change_def process_city_def process_city_try_def)

theorem insufficient_files_noop_witness:
  "length [''a.h5''] < 2 \<and>
   analyze_change (scenario_gdal [[1]] [[9]]) [''a.h5''] = (Returned None, [AnalyzingChange]) \<and>
   process_city ((scenario_world [[1]] [[9]])\<lparr>archive := sparse_archive\<rparr>) region_X empty_db =
     (Returned (), empty_db,
      [Downloading ''X'', Querying ''2022-01-15'', Querying ''2023-01-15'', NoData ''2023-01-15'',
       SkippingCity ''X'']) \<and>
   process_city ((scenario_world [[1]] [[9]])\<lparr>archive := failing_archive\<rparr>) region_X empty_db =
     (Returned (), empty_db,
      [Downloading ''X'', Querying ''2022-01-15'', Querying ''2023-01-15'',
       CriticalError ''X'' (LibraryError ''timeout'')])"
  using insufficient_files_noop [of "[''a.h5'']" "scenario_gdal [[1]] [[9]]"
      "(scenario_world [[1]] [[9]])\<lparr>archive := sparse_archive\<rparr>" region_X
      "[Downloading ''X'', Querying ''2022-01-15'', Querying ''2023-01-15'', NoData ''2023-01-15'']"
      empty_db]
    insufficient_files_noop [of "[]" "scenario_gdal [[1]] [[9]]"
      "(scenario_world [[1]] [[9]])\<lparr>archive := failing_archive\<rparr>" region_X
      "[Downloading ''X'', Querying ''2022-01-15'', Querying ''2023-01-15'']"
      empty_db "LibraryError ''timeout''"]
    sparse_download failing_download
  by (simp add: region_X_def)

subsection \<open>The ingest scaffold\<close>

text \<open>
  Claim C9, as stated, names the third key \<open>created_at\<close>. The sidecar has no such key:
  the field of the dataclass, and so the key, is \<open>created_at_utc\<close>.
\<close>

theorem sidecar_keys_counterexample:
  "sidecar_keys (fst (ingest_main ''/repo/data/rasters'' ''2026-11-04T08:00:00+00:00'' year_only)) \<noteq>
     [''product'', ''year'', ''created_at'', ''source'', ''notes''] \<and>
   ''created_at'' \<notin> set (sidecar_keys
      (fst (ingest_main ''/repo/data/rasters'' ''2026-11-04T08:00:00+00:00'' year_only)))"
  by (simp add: sidecar_keys_def ingest_main_def write_provenance_def asdict_def Let_def)

text \<open>
  Claim C9, amended. Every run writes two files and exits with 0: the placeholder, and
  next to it (same directory, the placeholder's name followed by \<open>.provenance.json\<close>)
  the sidecar, a JSON object with exactly the five keys \<open>product\<close>, \<open>year\<close>,
  \<open>created_at_utc\<close>, \<open>source\<close> and \<open>notes\<close>, in this order; \<open>year\<close> is the year of the
  command line, \<open>created_at_utc\<close> the UTC time of the run, and \<open>source\<close> and \<open>notes\<close> are
  the strings supplied, or the defaults.
\<close>

theorem sidecar_contents:
  "ingest_main default_output_root now_utc a =
     ([([or_default (args_output_root a) default_output_root, ''viirs'', ''nightly_lights'',
         str_int (args_year a)] @
        [''VIIRS_Night_Lights_'' @ str_int (args_year a) @ ''__PLACEHOLDER.txt''],
        snd (fst (ingest_main default_output_root now_utc a) ! 0)),
       ([or_default (args_output_root a) default_output_root, ''viirs'', ''nightly_lights'',
         str_int (args_year a)] @
        [''VIIRS_Night_Lights_'' @ str_int (args_year a) @ ''__PLACEHOLDER.txt.provenance.json''],
        Json (JObject
          [(''product'', JString ''VIIRS Nighttime Lights (raster)''),
           (''year'', JInt (args_year a)),
           (''created_at_utc'', JString now_utc),
           (''source'', JString (or_default (args_source a) default_source)),
           (''notes'', JString (or_default (args_notes a) default_notes))]))],
      0) \<and>
   sidecar_keys (fst (ingest_main default_output_root now_utc a)) =
     [''product'', ''year'', ''created_at_utc'', ''source'', ''notes'']"
  by (simp add: sidecar_keys_def ingest_main_def write_provenance_def asdict_def Let_def)

end
